theory Spec2Isabelle
  imports Main "HOL-Library.AList"
begin

section \<open>Python values used by pySimPro\<close>

text \<open>
  JSON as \<^verbatim>\<open>requests\<close> decodes it: \<^verbatim>\<open>None\<close>, booleans, integers, strings, lists
  and dicts. JSON numbers with a fractional part are left out of the model. A Python
  \<^verbatim>\<open>str\<close> is a list of characters with code points below 256; a \<^verbatim>\<open>dict\<close> is an
  association list in insertion order, its keys distinct.
\<close>

datatype json =
    JNull
  | JBool bool
  | JInt int
  | JStr string
  | JList "json list"
  | JObj "(string \<times> json) list"

type_synonym dict = "(string \<times> json) list"

text \<open>
  The exceptions the two modules can raise. \<open>HTTPError\<close> carries the status code of
  the response, as \<^verbatim>\<open>requests.HTTPError\<close> carries the response. \<open>ConnectionError\<close>
  stands for an exception of \<^verbatim>\<open>requests.get\<close>/\<^verbatim>\<open>requests.post\<close> themselves (no
  response arrived), \<open>JSONDecodeError\<close> for a body that is not JSON; neither is a
  subclass of \<^verbatim>\<open>HTTPError\<close>. The code annotates every record id as \<^verbatim>\<open>int\<close>; a
  response whose \<^verbatim>\<open>"ID"\<close> is no integer is outside that contract and the model stops
  there with \<open>NonIntegerID\<close>. \<open>UnmodelledType\<close> likewise marks a call of the built-in
  \<^verbatim>\<open>type\<close> whose outcome depends on objects the model does not describe.
\<close>

datatype error =
    HTTPError nat
  | ConnectionError
  | JSONDecodeError
  | KeyError string
  | TypeError
  | ValueError
  | AttributeError
  | JobRecordCreationError
  | NonIntegerID
  | UnmodelledType

text \<open>The name of the exception class: what an \<^verbatim>\<open>except\<close> clause can select on.\<close>

fun exception_class :: "error \<Rightarrow> string" where
  "exception_class (HTTPError _) = ''HTTPError''"
| "exception_class ConnectionError = ''ConnectionError''"
| "exception_class JSONDecodeError = ''JSONDecodeError''"
| "exception_class (KeyError _) = ''KeyError''"
| "exception_class TypeError = ''TypeError''"
| "exception_class ValueError = ''ValueError''"
| "exception_class AttributeError = ''AttributeError''"
| "exception_class JobRecordCreationError = ''JobRecordCreationError''"
| "exception_class NonIntegerID = ''NonIntegerID''"
| "exception_class UnmodelledType = ''UnmodelledType''"

subsection \<open>Dictionaries\<close>

definition keys :: "dict \<Rightarrow> string set" where
  "keys d = fst ` set d"

text \<open>\<^verbatim>\<open>d.update(other)\<close>: a key of \<open>d\<close> keeps its place, a new key goes to the end.\<close>

definition dict_update :: "dict \<Rightarrow> dict \<Rightarrow> dict" where
  "dict_update d other = fold (\<lambda>(k, v). AList.update k v) other d"

subsection \<open>\<^verbatim>\<open>str\<close> of an integer\<close>

definition digit_char :: "nat \<Rightarrow> char" where
  "digit_char d = ''0123456789'' ! d"

fun str_nat :: "nat \<Rightarrow> string" where
  "str_nat n = (if n < 10 then [digit_char n] else str_nat (n div 10) @ [digit_char (n mod 10)])"

declare str_nat.simps [simp del]

definition str_int :: "int \<Rightarrow> string" where
  "str_int i = (if i < 0 then CHR ''-'' # str_nat (nat (- i)) else str_nat (nat i))"

text \<open>The number that a string of decimal digits denotes, to say what \<open>str_int\<close> returns.\<close>

definition decimal_value :: "string \<Rightarrow> nat" where
  "decimal_value s = foldl (\<lambda>a c. 10 * a + (of_char c - 48)) 0 s"

section \<open>simpro.py\<close>

subsection \<open>Constants\<close>

text \<open>\<^verbatim>\<open>COMPANY_DOMAIN\<close> is read from the environment: a parameter \<open>cdom\<close>.\<close>

definition BASE_URL :: "string \<Rightarrow> string" where
  "BASE_URL cdom = ''https://'' @ cdom @ ''.simprosuite.com''"

definition BASE_API_URL :: "string \<Rightarrow> string" where
  "BASE_API_URL cdom = BASE_URL cdom @ ''/api/v1.0''"

subsection \<open>Classes and instances\<close>

text \<open>
  A value of a class's \<^verbatim>\<open>__dict__\<close>: a string, a list of strings, or some other object
  (a method, a nested dict), known by a label only.
\<close>

datatype pyval = PStr string | PStrList "string list" | POther string

text \<open>A class as \<^verbatim>\<open>type(name, bases, definitions)\<close> makes it.\<close>

record py_class =
  cls_name :: string
  cls_bases :: "string list"
  cls_dict :: "(string \<times> pyval) list"

text \<open>
  \<^verbatim>\<open>cls.type_url_suffix\<close>, as the operand of a string concatenation. A class that
  defines none inherits the property object of \<^verbatim>\<open>SimProObject\<close>, and adding a
  property (or any other non-string) to a string raises \<^verbatim>\<open>TypeError\<close>.
\<close>

definition cls_type_url_suffix :: "py_class \<Rightarrow> error + string" where
  "cls_type_url_suffix c =
     (case map_of (cls_dict c) ''type_url_suffix'' of
        Some (PStr s) \<Rightarrow> Inr s
      | Some _ \<Rightarrow> Inl TypeError
      | None \<Rightarrow> Inl TypeError)"

text \<open>
  An instance of a \<^verbatim>\<open>SimProObject\<close> subclass (class, \<^verbatim>\<open>record_id\<close>, \<^verbatim>\<open>parent\<close>,
  \<^verbatim>\<open>attributes\<close>), or the \<^verbatim>\<open>Parentless\<close> sentinel.
\<close>

datatype simpro =
    Parentless
  | SimProObject py_class int simpro dict

text \<open>\<^verbatim>\<open>obj.record_id\<close>; \<^verbatim>\<open>Parentless\<close> has no such attribute.\<close>

fun get_record_id :: "simpro \<Rightarrow> error + int" where
  "get_record_id Parentless = Inl AttributeError"
| "get_record_id (SimProObject c rid p a) = Inr rid"

text \<open>The property \<^verbatim>\<open>obj_url\<close>; on \<^verbatim>\<open>Parentless\<close> it is the class attribute.\<close>

fun obj_url :: "string \<Rightarrow> simpro \<Rightarrow> error + string" where
  "obj_url cdom Parentless = Inr (BASE_API_URL cdom)"
| "obj_url cdom (SimProObject c rid p a) =
     (case obj_url cdom p of
        Inl e \<Rightarrow> Inl e
      | Inr parent_url \<Rightarrow>
          (case cls_type_url_suffix c of
             Inl e \<Rightarrow> Inl e
           | Inr suffix \<Rightarrow> Inr (parent_url @ suffix @ str_int rid)))"

text \<open>\<^verbatim>\<open>parent.obj_url + cls.type_url_suffix\<close>, the address of list and create requests.\<close>

definition type_url :: "string \<Rightarrow> py_class \<Rightarrow> simpro \<Rightarrow> error + string" where
  "type_url cdom c p =
     (case obj_url cdom p of
        Inl e \<Rightarrow> Inl e
      | Inr parent_url \<Rightarrow>
          (case cls_type_url_suffix c of
             Inl e \<Rightarrow> Inl e
           | Inr suffix \<Rightarrow> Inr (parent_url @ suffix)))"

subsection \<open>The class factory\<close>

record ClassDescription =
  name :: string
  bases :: "string list option"
  type_url_suffix :: string
  docstring :: "string option"
  attributes :: "string list option"
  definitions :: "(string \<times> pyval) list option"

text \<open>
  The built-in \<^verbatim>\<open>type(name, bases, dict)\<close>, where its outcome is certain: the only base
  is \<^verbatim>\<open>SimProObject\<close>, and the dict holds strings and lists of strings under keys that
  do not begin with two underscores (\<^verbatim>\<open>__doc__\<close> apart). There \<^verbatim>\<open>type\<close> raises
  \<^verbatim>\<open>ValueError\<close> for a name with a NUL character and returns the class otherwise. With
  extra bases (their metaclasses, layouts and method resolution order), with special
  keys such as \<^verbatim>\<open>__slots__\<close>, \<^verbatim>\<open>__qualname__\<close> or \<^verbatim>\<open>__classcell__\<close>, or with other
  objects as values, what \<^verbatim>\<open>type\<close> does depends on those objects: it may return a
  class or raise, and the model stops with \<open>UnmodelledType\<close> instead of choosing.
\<close>

fun plain_value :: "pyval \<Rightarrow> bool" where
  "plain_value (PStr s) = True"
| "plain_value (PStrList xs) = True"
| "plain_value (POther l) = False"

definition plain_key :: "string \<Rightarrow> bool" where
  "plain_key k = (take 2 k \<noteq> ''__'' \<or> k = ''__doc__'')"

definition plain_dict :: "(string \<times> pyval) list \<Rightarrow> bool" where
  "plain_dict d = list_all (\<lambda>(k, v). plain_key k \<and> plain_value v) d"

definition py_type :: "string \<Rightarrow> string list \<Rightarrow> (string \<times> pyval) list \<Rightarrow> error + py_class" where
  "py_type nm bs d =
     (if bs \<noteq> [''SimProObject''] \<or> \<not> plain_dict d then Inl UnmodelledType
      else if CHR 0x00 \<in> set nm then Inl ValueError
      else Inr \<lparr>cls_name = nm, cls_bases = bs, cls_dict = d\<rparr>)"

text \<open>
  One turn of the loop of \<^verbatim>\<open>build_classes\<close>: the list \<^verbatim>\<open>bases\<close>, the dict
  \<^verbatim>\<open>definitions\<close>, and the call of \<^verbatim>\<open>type\<close>. The extra base classes are known by name
  only.
\<close>

definition class_bases :: "ClassDescription \<Rightarrow> string list" where
  "class_bases cls =
     (let bases0 = [''SimProObject'']
      in case bases cls of None \<Rightarrow> bases0 | Some bs \<Rightarrow> bases0 @ bs)"

definition class_definitions :: "ClassDescription \<Rightarrow> (string \<times> pyval) list" where
  "class_definitions cls =
     (let d0 = [(''type_url_suffix'', PStr (type_url_suffix cls))];
          d1 = (case docstring cls of
                  None \<Rightarrow> d0
                | Some s \<Rightarrow> if s = [] then d0 else AList.update ''__doc__'' (PStr s) d0);
          d2 = (case attributes cls of
                  None \<Rightarrow> d1
                | Some xs \<Rightarrow> if xs = [] then d1 else AList.update ''attributes'' (PStrList xs) d1)
      in case definitions cls of
           None \<Rightarrow> d2
         | Some ds \<Rightarrow> fold (\<lambda>(k, v). AList.update k v) ds d2)"

definition build_class :: "ClassDescription \<Rightarrow> error + py_class" where
  "build_class cls = py_type (name cls) (class_bases cls) (class_definitions cls)"

fun build_classes :: "ClassDescription list \<Rightarrow> error + py_class list" where
  "build_classes [] = Inr []"
| "build_classes (cls # rest) =
     (case build_class cls of
        Inl e \<Rightarrow> Inl e
      | Inr new_class \<Rightarrow>
          (case build_classes rest of
             Inl e \<Rightarrow> Inl e
           | Inr classes \<Rightarrow> Inr (new_class # classes)))"

subsection \<open>Requests and responses\<close>

text \<open>
  The query parameters of a GET. \<^verbatim>\<open>_columns_to_params\<close> joins a Python \<^verbatim>\<open>set\<close>
  with commas, so the order of the names in the string is not determined; the model
  keeps the set of names. \<^verbatim>\<open>_list_all\<close> sends all four parameters, \<^verbatim>\<open>_retrieve\<close>
  only \<^verbatim>\<open>columns\<close>. The headers are the same constant on every request and are left out.
\<close>

record params =
  columns :: "string set"
  pageSize :: "nat option"
  page :: "nat option"
  orderby :: "string option"

datatype request = Get string params | Post string dict

record response =
  status_code :: nat
  json_body :: "json option"
  links_next :: bool

text \<open>
  The server answers a request from its state \<open>'w\<close>; \<open>None\<close> is a request that gets no
  response, on which \<^verbatim>\<open>requests\<close> raises. The client side records what was sent.
\<close>

type_synonym 'w server = "request \<Rightarrow> 'w \<Rightarrow> response option \<times> 'w"

record 'w net =
  sent :: "request list"
  world :: 'w

definition send :: "'w server \<Rightarrow> request \<Rightarrow> 'w net \<Rightarrow> (error + response) \<times> 'w net" where
  "send srv rq n =
     (case srv rq (world n) of
        (None, w) \<Rightarrow> (Inl ConnectionError, \<lparr>sent = sent n @ [rq], world = w\<rparr>)
      | (Some resp, w) \<Rightarrow> (Inr resp, \<lparr>sent = sent n @ [rq], world = w\<rparr>))"

text \<open>\<^verbatim>\<open>if not response.ok: response.raise_for_status()\<close>\<close>

definition raise_for_status :: "response \<Rightarrow> error + response" where
  "raise_for_status resp =
     (if 400 \<le> status_code resp \<and> status_code resp < 600
      then Inl (HTTPError (status_code resp)) else Inr resp)"

text \<open>\<^verbatim>\<open>response.json()\<close>\<close>

definition response_json :: "response \<Rightarrow> error + json" where
  "response_json resp = (case json_body resp of None \<Rightarrow> Inl JSONDecodeError | Some j \<Rightarrow> Inr j)"

text \<open>
  \<^verbatim>\<open>record_id = obj_attributes.pop("ID")\<close>: a list's \<^verbatim>\<open>pop\<close> refuses a string, and
  \<^verbatim>\<open>None\<close>, booleans, integers and strings have no \<^verbatim>\<open>pop\<close>.
\<close>

fun pop_ID :: "json \<Rightarrow> error + int \<times> dict" where
  "pop_ID (JObj d) =
     (case map_of d ''ID'' of
        None \<Rightarrow> Inl (KeyError ''ID'')
      | Some (JInt i) \<Rightarrow> Inr (i, AList.delete ''ID'' d)
      | Some _ \<Rightarrow> Inl NonIntegerID)"
| "pop_ID (JList _) = Inl TypeError"
| "pop_ID _ = Inl AttributeError"

text \<open>
  \<^verbatim>\<open>for obj_attributes in response.json()\<close>: a list gives its items, a dict its keys,
  a string its characters; the rest cannot be iterated.
\<close>

fun json_iter :: "json \<Rightarrow> error + json list" where
  "json_iter (JList xs) = Inr xs"
| "json_iter (JObj d) = Inr (map (\<lambda>kv. JStr (fst kv)) d)"
| "json_iter (JStr s) = Inr (map (\<lambda>c. JStr [c]) s)"
| "json_iter _ = Inl TypeError"

text \<open>
  The body of that loop, item by item: \<^verbatim>\<open>cls(record_id, parent, obj_attributes)\<close>
  appended to the list. \<^verbatim>\<open>Company.__init__\<close> replaces a false \<^verbatim>\<open>record_id\<close> by 0 and
  a \<^verbatim>\<open>None\<close> parent by \<^verbatim>\<open>Parentless()\<close>, which changes neither an integer nor a parent
  that got this far, so one constructor serves every class.
\<close>

fun decode_all :: "py_class \<Rightarrow> simpro \<Rightarrow> json list \<Rightarrow> error + simpro list" where
  "decode_all cls parent [] = Inr []"
| "decode_all cls parent (obj_attributes # rest) =
     (case pop_ID obj_attributes of
        Inl e \<Rightarrow> Inl e
      | Inr (record_id, attrs) \<Rightarrow>
          (case decode_all cls parent rest of
             Inl e \<Rightarrow> Inl e
           | Inr objs \<Rightarrow> Inr (SimProObject cls record_id parent attrs # objs)))"

definition decode_page :: "py_class \<Rightarrow> simpro \<Rightarrow> response \<Rightarrow> error + simpro list" where
  "decode_page cls parent resp =
     (case response_json resp of
        Inl e \<Rightarrow> Inl e
      | Inr j \<Rightarrow> (case json_iter j of Inl e \<Rightarrow> Inl e | Inr items \<Rightarrow> decode_all cls parent items))"

subsection \<open>\<^verbatim>\<open>SimProObject\<close>\<close>

text \<open>
  \<^verbatim>\<open>_columns_to_params\<close>. The list that \<^verbatim>\<open>columns\<close> names is changed in place by
  \<^verbatim>\<open>append\<close>, so the function returns, next to the parameter value, what that list
  holds afterwards. For \<open>Some cs\<close> the list is the caller's own object.
\<close>

definition priv_columns_to_params :: "string list option \<Rightarrow> string set \<times> string list" where
  "priv_columns_to_params cols =
     (let columns0 = (case cols of None \<Rightarrow> [] | Some cs \<Rightarrow> cs);
          columns1 = columns0 @ [''ID'']
      in (set columns1, columns1))"

text \<open>
  The \<^verbatim>\<open>while\<close> loop of \<^verbatim>\<open>_list_all\<close>, one request per turn. Nothing bounds the number
  of turns: a server that sends a \<^verbatim>\<open>next\<close> link on every page keeps the loop running,
  and the value is then \<open>None\<close>. The \<^verbatim>\<open>print\<close> calls are left out.
\<close>

partial_function (option) list_all_loop ::
  "'w server \<Rightarrow> py_class \<Rightarrow> simpro \<Rightarrow> string \<Rightarrow> string set \<Rightarrow> nat \<Rightarrow> simpro list \<Rightarrow> 'w net
     \<Rightarrow> ((error + simpro list) \<times> 'w net) option" where
  "list_all_loop srv cls parent request_url columns_param pg child_objects n =
     (case send srv (Get request_url
             \<lparr>columns = columns_param, pageSize = Some 250, page = Some pg,
              orderby = Some ''ID''\<rparr>) n of
        (Inl e, n') \<Rightarrow> Some (Inl e, n')
      | (Inr resp, n') \<Rightarrow>
          (case raise_for_status resp of
             Inl e \<Rightarrow> Some (Inl e, n')
           | Inr _ \<Rightarrow>
               (case decode_page cls parent resp of
                  Inl e \<Rightarrow> Some (Inl e, n')
                | Inr objs \<Rightarrow>
                    if links_next resp
                    then list_all_loop srv cls parent request_url columns_param (pg + 1)
                           (child_objects @ objs) n'
                    else Some (Inr (child_objects @ objs), n'))))"

declare list_all_loop.simps [code]

text \<open>
  \<^verbatim>\<open>_list_all\<close>; the result comes with the final contents of the \<^verbatim>\<open>columns\<close> list.
\<close>

definition priv_list_all ::
  "'w server \<Rightarrow> string \<Rightarrow> py_class \<Rightarrow> simpro \<Rightarrow> string list option \<Rightarrow> 'w net
     \<Rightarrow> (((error + simpro list) \<times> string list) \<times> 'w net) option" where
  "priv_list_all srv cdom cls parent cols n =
     (case priv_columns_to_params cols of
        (columns_param, cols') \<Rightarrow>
          (case type_url cdom cls parent of
             Inl e \<Rightarrow> Some ((Inl e, cols'), n)
           | Inr request_url \<Rightarrow>
               map_option (\<lambda>(r, n'). ((r, cols'), n'))
                 (list_all_loop srv cls parent request_url columns_param 1 [] n)))"

text \<open>\<^verbatim>\<open>list_all\<close>: a \<^verbatim>\<open>None\<close> becomes a fresh list, any other list is passed on as it is.\<close>

definition list_all_obj ::
  "'w server \<Rightarrow> string \<Rightarrow> py_class \<Rightarrow> simpro \<Rightarrow> string list option \<Rightarrow> 'w net
     \<Rightarrow> (((error + simpro list) \<times> string list) \<times> 'w net) option" where
  "list_all_obj srv cdom cls parent cols n =
     priv_list_all srv cdom cls parent (Some (case cols of None \<Rightarrow> [] | Some cs \<Rightarrow> cs)) n"

text \<open>\<^verbatim>\<open>Company.list_all\<close>, which puts \<^verbatim>\<open>"Name"\<close> in front first.\<close>

definition Company_list_all ::
  "'w server \<Rightarrow> string \<Rightarrow> py_class \<Rightarrow> simpro \<Rightarrow> string list option \<Rightarrow> 'w net
     \<Rightarrow> (((error + simpro list) \<times> string list) \<times> 'w net) option" where
  "Company_list_all srv cdom cls parent cols n =
     priv_list_all srv cdom cls parent
       (Some (''Name'' # (case cols of None \<Rightarrow> [] | Some cs \<Rightarrow> cs))) n"

text \<open>\<^verbatim>\<open>_create\<close> and \<^verbatim>\<open>create\<close>\<close>

definition priv_create ::
  "'w server \<Rightarrow> string \<Rightarrow> py_class \<Rightarrow> simpro \<Rightarrow> dict \<Rightarrow> 'w net \<Rightarrow> (error + simpro) \<times> 'w net" where
  "priv_create srv cdom cls parent attrs n =
     (case type_url cdom cls parent of
        Inl e \<Rightarrow> (Inl e, n)
      | Inr request_url \<Rightarrow>
          (case send srv (Post request_url attrs) n of
             (Inl e, n') \<Rightarrow> (Inl e, n')
           | (Inr resp, n') \<Rightarrow>
               (case raise_for_status resp of
                  Inl e \<Rightarrow> (Inl e, n')
                | Inr _ \<Rightarrow>
                    (case response_json resp of
                       Inl e \<Rightarrow> (Inl e, n')
                     | Inr obj_attributes \<Rightarrow>
                         (case pop_ID obj_attributes of
                            Inl e \<Rightarrow> (Inl e, n')
                          | Inr (rid, a) \<Rightarrow> (Inr (SimProObject cls rid parent a), n'))))))"

definition create ::
  "'w server \<Rightarrow> string \<Rightarrow> py_class \<Rightarrow> simpro \<Rightarrow> dict option \<Rightarrow> 'w net \<Rightarrow> (error + simpro) \<times> 'w net" where
  "create srv cdom cls parent attrs n =
     priv_create srv cdom cls parent (case attrs of None \<Rightarrow> [] | Some a \<Rightarrow> a) n"

text \<open>\<^verbatim>\<open>_retrieve\<close> and \<^verbatim>\<open>retrieve\<close>, again with the final contents of \<^verbatim>\<open>columns\<close>.\<close>

definition priv_retrieve ::
  "'w server \<Rightarrow> string \<Rightarrow> py_class \<Rightarrow> int \<Rightarrow> simpro \<Rightarrow> string list option \<Rightarrow> 'w net
     \<Rightarrow> ((error + simpro) \<times> string list) \<times> 'w net" where
  "priv_retrieve srv cdom cls rid0 parent cols n =
     (case priv_columns_to_params cols of
        (columns_param, cols') \<Rightarrow>
          (case type_url cdom cls parent of
             Inl e \<Rightarrow> ((Inl e, cols'), n)
           | Inr u \<Rightarrow>
               (case send srv (Get (u @ str_int rid0)
                       \<lparr>columns = columns_param, pageSize = None, page = None,
                        orderby = None\<rparr>) n of
                  (Inl e, n') \<Rightarrow> ((Inl e, cols'), n')
                | (Inr resp, n') \<Rightarrow>
                    (case raise_for_status resp of
                       Inl e \<Rightarrow> ((Inl e, cols'), n')
                     | Inr _ \<Rightarrow>
                         (case response_json resp of
                            Inl e \<Rightarrow> ((Inl e, cols'), n')
                          | Inr obj_attributes \<Rightarrow>
                              (case pop_ID obj_attributes of
                                 Inl e \<Rightarrow> ((Inl e, cols'), n')
                               | Inr (rid, a) \<Rightarrow>
                                   ((Inr (SimProObject cls rid parent a), cols'), n')))))))"

definition retrieve ::
  "'w server \<Rightarrow> string \<Rightarrow> py_class \<Rightarrow> int \<Rightarrow> simpro \<Rightarrow> string list option \<Rightarrow> 'w net
     \<Rightarrow> ((error + simpro) \<times> string list) \<times> 'w net" where
  "retrieve srv cdom cls rid0 parent cols n =
     priv_retrieve srv cdom cls rid0 parent (Some (case cols of None \<Rightarrow> [] | Some cs \<Rightarrow> cs)) n"

section \<open>simple_bootstrap.py\<close>

subsection \<open>String methods\<close>

text \<open>
  The characters \<^verbatim>\<open>str.split()\<close> takes for whitespace, among code points below 256:
  tab to carriage return, the four separators 28 to 31, the space, NEL and the
  no-break space.
\<close>

definition is_space :: "char \<Rightarrow> bool" where
  "is_space c = (of_char c \<in> {9, 10, 11, 12, 13, 28, 29, 30, 31, 32, 133, 160 :: nat})"

text \<open>\<^verbatim>\<open>s.split()\<close>, with the word read so far as first argument.\<close>

fun split_from :: "string \<Rightarrow> string \<Rightarrow> string list" where
  "split_from w [] = (if w = [] then [] else [w])"
| "split_from w (c # cs) =
     (if is_space c then (if w = [] then split_from [] cs else w # split_from [] cs)
      else split_from (w @ [c]) cs)"

definition py_split :: "string \<Rightarrow> string list" where
  "py_split s = split_from [] s"

text \<open>\<^verbatim>\<open>sep.join(words)\<close>\<close>

fun py_join :: "string \<Rightarrow> string list \<Rightarrow> string" where
  "py_join sep [] = []"
| "py_join sep [w] = w"
| "py_join sep (w # v # ws) = w @ sep @ py_join sep (v # ws)"

text \<open>\<^verbatim>\<open>s.replace("\n", "")\<close>\<close>

definition remove_newlines :: "string \<Rightarrow> string" where
  "remove_newlines s = filter (\<lambda>c. c \<noteq> CHR 0x0A) s"

subsection \<open>\<^verbatim>\<open>create_site\<close>\<close>

text \<open>
  The inner function \<^verbatim>\<open>set_name\<close>. \<^verbatim>\<open>get\<close> exists on a dict only and \<^verbatim>\<open>replace\<close>
  on a string only; on another value the attribute lookup raises. With a \<^verbatim>\<open>"Name"\<close>
  in the attributes the result is that value, whatever its type.
\<close>

definition set_name :: "dict \<Rightarrow> error + json" where
  "set_name site_attributes =
     (case map_of site_attributes ''Name'' of
        None \<Rightarrow>
          (case map_of site_attributes ''Address'' of
             None \<Rightarrow> Inr (JStr [])
           | Some JNull \<Rightarrow> Inr (JStr [])
           | Some (JObj address) \<Rightarrow>
               (case map_of address ''Address'' of
                  None \<Rightarrow> Inr (JStr [])
                | Some JNull \<Rightarrow> Inr (JStr [])
                | Some (JStr street_address) \<Rightarrow>
                    Inr (JStr (py_join '' '' (py_split (remove_newlines street_address))))
                | Some _ \<Rightarrow> Inl AttributeError)
           | Some _ \<Rightarrow> Inl AttributeError)
      | Some v \<Rightarrow> Inr v)"

text \<open>\<^verbatim>\<open>record_attributes\<close> of \<^verbatim>\<open>create_site\<close>: the name, then the caller's attributes.\<close>

definition site_record_attributes :: "dict \<Rightarrow> error + dict" where
  "site_record_attributes site_attributes =
     (case set_name site_attributes of
        Inl e \<Rightarrow> Inl e
      | Inr nm \<Rightarrow> Inr (dict_update [(''Name'', nm)] site_attributes))"

text \<open>
  The \<^verbatim>\<open>for _ in range(3)\<close> loop with its \<^verbatim>\<open>else\<close>, by the number of turns left:
  \<^verbatim>\<open>except HTTPError: continue\<close> goes to the next turn, any other exception leaves
  the function, a site ends the loop.
\<close>

fun create_site_loop ::
  "'w server \<Rightarrow> string \<Rightarrow> py_class \<Rightarrow> simpro \<Rightarrow> dict \<Rightarrow> nat \<Rightarrow> 'w net \<Rightarrow> (error + simpro) \<times> 'w net" where
  "create_site_loop srv cdom Site customer record_attributes 0 n = (Inl JobRecordCreationError, n)"
| "create_site_loop srv cdom Site customer record_attributes (Suc k) n =
     (case create srv cdom Site customer (Some record_attributes) n of
        (Inl (HTTPError st), n') \<Rightarrow> create_site_loop srv cdom Site customer record_attributes k n'
      | (Inl e, n') \<Rightarrow> (Inl e, n')
      | (Inr site, n') \<Rightarrow> (Inr site, n'))"

text \<open>\<^verbatim>\<open>Site\<close> is a stub in the module, to be replaced by a generated class: a parameter.\<close>

definition create_site ::
  "'w server \<Rightarrow> string \<Rightarrow> py_class \<Rightarrow> simpro \<Rightarrow> dict \<Rightarrow> 'w net \<Rightarrow> (error + simpro) \<times> 'w net" where
  "create_site srv cdom Site customer site_attributes n =
     (case site_record_attributes site_attributes of
        Inl e \<Rightarrow> (Inl e, n)
      | Inr record_attributes \<Rightarrow> create_site_loop srv cdom Site customer record_attributes 3 n)"

subsection \<open>\<^verbatim>\<open>create_job\<close>\<close>

definition DEFAULT_COST_CENTER :: int where
  "DEFAULT_COST_CENTER = 0"

text \<open>
  The second half of \<^verbatim>\<open>create_job\<close>: the job gets a section if it has none, and the
  section (the new one, or the first listed) a cost center if it has none.
\<close>

definition ensure_default_children ::
  "'w server \<Rightarrow> string \<Rightarrow> py_class \<Rightarrow> py_class \<Rightarrow> simpro \<Rightarrow> 'w net \<Rightarrow> ((error + unit) \<times> 'w net) option" where
  "ensure_default_children srv cdom Section JobCostCenter job n =
     (case list_all_obj srv cdom Section job None n of
        None \<Rightarrow> None
      | Some ((Inl e, _), n1) \<Rightarrow> Some (Inl e, n1)
      | Some ((Inr sections, _), n1) \<Rightarrow>
          (case (if length sections < 1 then create srv cdom Section job None n1
                 else (Inr (hd sections), n1)) of
             (Inl e, n2) \<Rightarrow> Some (Inl e, n2)
           | (Inr section, n2) \<Rightarrow>
               (case list_all_obj srv cdom JobCostCenter section None n2 of
                  None \<Rightarrow> None
                | Some ((Inl e, _), n3) \<Rightarrow> Some (Inl e, n3)
                | Some ((Inr job_cost_centers, _), n3) \<Rightarrow>
                    if length job_cost_centers < 1
                    then (case create srv cdom JobCostCenter section
                                 (Some [(''CostCenter'', JInt DEFAULT_COST_CENTER),
                                        (''Name'', JStr ''BOQ'')]) n3 of
                            (Inl e, n4) \<Rightarrow> Some (Inl e, n4)
                          | (Inr _, n4) \<Rightarrow> Some (Inr (), n4))
                    else Some (Inr (), n3))))"

text \<open>\<^verbatim>\<open>record_attributes\<close> of \<^verbatim>\<open>create_job\<close>, built before anything is sent.\<close>

definition job_record_attributes :: "int \<Rightarrow> dict \<Rightarrow> dict" where
  "job_record_attributes customer_id job_attributes =
     dict_update [(''Type'', JStr ''Service''), (''Customer'', JInt customer_id)] job_attributes"

text \<open>
  The first half of \<^verbatim>\<open>create_job\<close>, up to \<^verbatim>\<open>Job.create\<close>. The caller's
  \<^verbatim>\<open>job_attributes\<close> dict is written to after the site is made, so the function returns
  what that dict holds afterwards next to its result.
  \<^verbatim>\<open>except Exception as err: raise err\<close> passes the exception on.
\<close>

definition create_job_start ::
  "'w server \<Rightarrow> string \<Rightarrow> py_class \<Rightarrow> py_class \<Rightarrow>
     simpro \<Rightarrow> simpro \<Rightarrow> dict \<Rightarrow> 'w net \<Rightarrow> (error + simpro) \<times> dict \<times> 'w net" where
  "create_job_start srv cdom Site Job company customer job_attributes n =
     (case get_record_id customer of
        Inl e \<Rightarrow> (Inl e, job_attributes, n)
      | Inr customer_id \<Rightarrow>
          (let record_attributes = job_record_attributes customer_id job_attributes in
           case (if ''Site'' \<notin> keys record_attributes
                 then (case create_site srv cdom Site customer job_attributes n of
                         (Inl e, n1) \<Rightarrow> (Inl e, job_attributes, n1)
                       | (Inr site, n1) \<Rightarrow>
                           (case get_record_id site of
                              Inl e \<Rightarrow> (Inl e, job_attributes, n1)
                            | Inr site_id \<Rightarrow>
                                (Inr (), AList.update ''Site'' (JInt site_id) job_attributes, n1)))
                 else (Inr (), job_attributes, n)) of
             (Inl e, job_attributes', n1) \<Rightarrow> (Inl e, job_attributes', n1)
           | (Inr _, job_attributes', n1) \<Rightarrow>
               (case create srv cdom Job company (Some record_attributes) n1 of
                  (Inl e, n2) \<Rightarrow> (Inl e, job_attributes', n2)
                | (Inr job, n2) \<Rightarrow> (Inr job, job_attributes', n2))))"

text \<open>
  \<^verbatim>\<open>create_job\<close> as a whole: the first half, then the default section and cost center
  of the new job. Only the second half lists, so only there the call may run forever.
\<close>

definition create_job ::
  "'w server \<Rightarrow> string \<Rightarrow> py_class \<Rightarrow> py_class \<Rightarrow> py_class \<Rightarrow> py_class \<Rightarrow>
     simpro \<Rightarrow> simpro \<Rightarrow> dict \<Rightarrow> 'w net \<Rightarrow> (((error + simpro) \<times> dict) \<times> 'w net) option" where
  "create_job srv cdom Site Job Section JobCostCenter company customer job_attributes n =
     (case create_job_start srv cdom Site Job company customer job_attributes n of
        (Inl e, job_attributes', n2) \<Rightarrow> Some ((Inl e, job_attributes'), n2)
      | (Inr job, job_attributes', n2) \<Rightarrow>
          (case ensure_default_children srv cdom Section JobCostCenter job n2 of
             None \<Rightarrow> None
           | Some (Inl e, n3) \<Rightarrow> Some ((Inl e, job_attributes'), n3)
           | Some (Inr _, n3) \<Rightarrow> Some ((Inr job, job_attributes'), n3)))"

section \<open>Servers to run the client against\<close>

subsection \<open>A simulated SimPRO server\<close>

text \<open>
  The server is not part of the repository. The simulated one keeps records, each under
  the address of its collection, and hands out ids from a counter. A POST to a
  collection stores the body as a new record and answers with the record and its id.
  A GET with a \<^verbatim>\<open>page\<close> parameter lists the records of the collection at that address,
  ordered by id, in pages of \<^verbatim>\<open>pageSize\<close>, with a \<^verbatim>\<open>next\<close> link while records remain.
  A GET without one answers with the record whose address it is, or with status 404.
  Every stored attribute is sent, whatever \<^verbatim>\<open>columns\<close> asks for.
\<close>

record entry =
  coll :: string
  rid :: int
  stored :: dict

record store =
  entries :: "entry list"
  next_id :: int

definition entry_json :: "entry \<Rightarrow> json" where
  "entry_json e = JObj (AList.update ''ID'' (JInt (rid e)) (stored e))"

definition children_of :: "string \<Rightarrow> store \<Rightarrow> entry list" where
  "children_of u st = sort_key rid (filter (\<lambda>e. coll e = u) (entries st))"

definition page_slice :: "nat \<Rightarrow> nat \<Rightarrow> 'a list \<Rightarrow> 'a list" where
  "page_slice psize pg xs = take psize (drop ((pg - 1) * psize) xs)"

definition add_entry :: "string \<Rightarrow> dict \<Rightarrow> store \<Rightarrow> store" where
  "add_entry u body st =
     \<lparr>entries = entries st @ [\<lparr>coll = u, rid = next_id st, stored = AList.delete ''ID'' body\<rparr>],
      next_id = next_id st + 1\<rparr>"

fun sim_server :: "store server" where
  "sim_server (Post u body) st =
     (Some \<lparr>status_code = 201,
            json_body = Some (JObj (AList.update ''ID'' (JInt (next_id st)) body)),
            links_next = False\<rparr>,
      add_entry u body st)"
| "sim_server (Get u ps) st =
     (case page ps of
        Some pg \<Rightarrow>
          (let psize = (case pageSize ps of None \<Rightarrow> 30 | Some k \<Rightarrow> k);
               recs = children_of u st
           in (Some \<lparr>status_code = 200,
                     json_body = Some (JList (map entry_json (page_slice psize pg recs))),
                     links_next = (pg * psize < length recs)\<rparr>, st))
      | None \<Rightarrow>
          (case find (\<lambda>e. coll e @ str_int (rid e) = u) (entries st) of
             Some e \<Rightarrow>
               (Some \<lparr>status_code = 200, json_body = Some (entry_json e), links_next = False\<rparr>, st)
           | None \<Rightarrow>
               (Some \<lparr>status_code = 404, json_body = None, links_next = False\<rparr>, st)))"

subsection \<open>A scripted server\<close>

text \<open>
  A test double that answers the requests from a list of prepared outcomes, one after
  the other; once the list is used up, no response arrives.
\<close>

fun scripted_server :: "(response option) list server" where
  "scripted_server rq [] = (None, [])"
| "scripted_server rq (r # rs) = (r, rs)"

subsection \<open>A server whose listings never end\<close>

text \<open>
  A test double that creates every record it is asked for, numbering them from its
  counter, and answers every listing with an empty page and a link to a next page.
\<close>

fun endless_server :: "nat server" where
  "endless_server (Post u body) k =
     (Some \<lparr>status_code = 201,
            json_body = Some (JObj (AList.update ''ID'' (JInt (int k)) body)),
            links_next = False\<rparr>, Suc k)"
| "endless_server (Get u ps) k =
     (Some \<lparr>status_code = 200, json_body = Some (JList []), links_next = True\<rparr>, k)"

definition http_response :: "nat \<Rightarrow> json option \<Rightarrow> response" where
  "http_response st j = \<lparr>status_code = st, json_body = j, links_next = False\<rparr>"

text \<open>The classes the examples use, as \<^verbatim>\<open>CLASS_DESCRIPTIONS\<close> describes them.\<close>

definition describe :: "string \<Rightarrow> string \<Rightarrow> string \<Rightarrow> ClassDescription" where
  "describe nm suffix doc =
     \<lparr>name = nm, bases = None, type_url_suffix = suffix, docstring = Some doc,
      attributes = None, definitions = None\<rparr>"

definition simple_class :: "string \<Rightarrow> string \<Rightarrow> string \<Rightarrow> py_class" where
  "simple_class nm suffix doc =
     \<lparr>cls_name = nm, cls_bases = [''SimProObject''],
      cls_dict = [(''type_url_suffix'', PStr suffix), (''__doc__'', PStr doc)]\<rparr>"

subsection \<open>Names for what the client sends and builds\<close>

text \<open>The request of \<^verbatim>\<open>_list_all\<close> for one page.\<close>

definition list_request :: "string \<Rightarrow> string set \<Rightarrow> nat \<Rightarrow> request" where
  "list_request u cp pg =
     Get u \<lparr>columns = cp, pageSize = Some 250, page = Some pg, orderby = Some ''ID''\<rparr>"

text \<open>The instance that \<^verbatim>\<open>_list_all\<close> builds from a record of the simulated server.\<close>

definition decoded :: "py_class \<Rightarrow> simpro \<Rightarrow> entry \<Rightarrow> simpro" where
  "decoded cls parent e = SimProObject cls (rid e) parent (AList.delete ''ID'' (stored e))"


text \<open>Whether a request is a GET, which changes nothing on the server.\<close>

fun is_get :: "request \<Rightarrow> bool" where
  "is_get (Get u ps) = True"
| "is_get (Post u body) = False"

section \<open>Properties of the address resolver\<close>

lemma digit_char_value: "d < 10 \<Longrightarrow> of_char (digit_char d) = 48 + d"
proof -
  assume "d < 10"
  then have "d \<in> {0, 1, 2, 3, 4, 5, 6, 7, 8, 9}" by auto
  then show ?thesis by (auto simp: digit_char_def)
qed

lemma decimal_value_str_nat: "decimal_value (str_nat n) = n"
proof (induction n rule: str_nat.induct)
  case (1 n)
  show ?case
  proof (cases "n < 10")
    case True
    then show ?thesis
      by (subst str_nat.simps) (simp add: decimal_value_def digit_char_value)
  next
    case False
    with 1 have ih: "decimal_value (str_nat (n div 10)) = n div 10" by simp
    have "n mod 10 < 10" by simp
    then have d: "of_char (digit_char (n mod 10)) = 48 + n mod 10" by (rule digit_char_value)
    from False have "str_nat n = str_nat (n div 10) @ [digit_char (n mod 10)]"
      by (subst str_nat.simps) simp
    then have "decimal_value (str_nat n) = 10 * decimal_value (str_nat (n div 10)) + n mod 10"
      by (simp add: decimal_value_def d)
    with ih show ?thesis by simp
  qed
qed

text \<open>
  C2. The address of the \<^verbatim>\<open>Parentless\<close> sentinel is the base address of the API. The
  address of an instance is the address of its parent, followed by the address segment
  of its class and by the decimal string of its id, as soon as the parent has an address
  and the segment is a string. An instance is a finite value, so its chain of parents
  always ends at the sentinel. At depth three the address is the base address followed by
  segment and id of each ancestor from the root down, the instance's own last. The
  string of an id that is not negative is a string of decimal digits with the value of
  the id, and the string of a negative id is a minus sign before that of its negation.
\<close>

theorem obj_url_composes:
  "obj_url cdom Parentless = Inr (BASE_API_URL cdom) \<and>
   (obj_url cdom p = Inr pu \<and> cls_type_url_suffix c = Inr s \<longrightarrow>
      obj_url cdom (SimProObject c i p a) = Inr (pu @ s @ str_int i)) \<and>
   (cls_type_url_suffix c1 = Inr s1 \<and> cls_type_url_suffix c2 = Inr s2 \<and>
    cls_type_url_suffix c3 = Inr s3 \<longrightarrow>
      obj_url cdom
        (SimProObject c3 i3 (SimProObject c2 i2 (SimProObject c1 i1 Parentless a1) a2) a3)
      = Inr (BASE_API_URL cdom @ s1 @ str_int i1 @ s2 @ str_int i2 @ s3 @ str_int i3)) \<and>
   (0 \<le> i \<longrightarrow> decimal_value (str_int i) = nat i) \<and>
   (i < 0 \<longrightarrow> str_int i = CHR ''-'' # str_int (- i))"
  by (simp add: str_int_def decimal_value_str_nat)

theorem obj_url_composes_witness:
  "cls_type_url_suffix (simple_class ''Company'' ''/companies/'' ''c'') = Inr ''/companies/'' \<and>
   cls_type_url_suffix (simple_class ''Job'' ''/jobs/'' ''j'') = Inr ''/jobs/'' \<and>
   cls_type_url_suffix (simple_class ''JobSection'' ''/sections/'' ''s'') = Inr ''/sections/'' \<and>
   obj_url ''acme'' (SimProObject (simple_class ''Company'' ''/companies/'' ''c'') 0 Parentless [])
     = Inr ''https://acme.simprosuite.com/api/v1.0/companies/0'' \<and>
   obj_url ''acme''
     (SimProObject (simple_class ''JobSection'' ''/sections/'' ''s'') 3
        (SimProObject (simple_class ''Job'' ''/jobs/'' ''j'') 12
           (SimProObject (simple_class ''Company'' ''/companies/'' ''c'') 0 Parentless []) []) [])
     = Inr ''https://acme.simprosuite.com/api/v1.0/companies/0/jobs/12/sections/3'' \<and>
   decimal_value (str_int 12) = 12 \<and>
   str_int (- 5) = ''-5''"
proof -
  let ?C = "simple_class ''Company'' ''/companies/'' ''c''"
  let ?J = "simple_class ''Job'' ''/jobs/'' ''j''"
  let ?S = "simple_class ''JobSection'' ''/sections/'' ''s''"
  have c: "cls_type_url_suffix ?C = Inr ''/companies/''"
    by (simp add: cls_type_url_suffix_def simple_class_def)
  have j: "cls_type_url_suffix ?J = Inr ''/jobs/''"
    by (simp add: cls_type_url_suffix_def simple_class_def)
  have s: "cls_type_url_suffix ?S = Inr ''/sections/''"
    by (simp add: cls_type_url_suffix_def simple_class_def)
  have n0: "str_int 0 = ''0''" by code_simp
  have n12: "str_int 12 = ''12''" by code_simp
  have n3: "str_int 3 = ''3''" by code_simp
  have b: "BASE_API_URL ''acme'' = ''https://acme.simprosuite.com/api/v1.0''"
    by (simp add: BASE_API_URL_def BASE_URL_def)
  have n5: "str_int 5 = ''5''" by code_simp
  have d12: "decimal_value (str_int 12) = 12"
    using obj_url_composes [where i = 12] by simp
  have m5: "str_int (- 5) = ''-5''"
    using obj_url_composes [where i = "- 5"] by (simp add: n5)
  from obj_url_composes [of "''acme''" Parentless "BASE_API_URL ''acme''" ?C "''/companies/''" 0 "[]"
      ?C "''/companies/''" ?J "''/jobs/''" ?S "''/sections/''" 3 12 0 "[]" "[]" "[]"]
  show ?thesis using c j s d12 m5 by (simp add: n0 n12 n3 b)
qed

section \<open>Properties of the class factory\<close>

lemma map_of_fold_update:
  "map_of (fold (\<lambda>(k, v). AList.update k v) ds d) = map_of d ++ map_of (rev ds)"
proof (induction ds arbitrary: d)
  case Nil
  show ?case by simp
next
  case (Cons x ds)
  obtain k v where x: "x = (k, v)" by (cases x)
  show ?case
    by (simp add: x Cons.IH update_conv' map_add_upd_left)
       (auto simp: map_add_def fun_eq_iff split: option.splits)
qed

text \<open>What \<open>plain_dict\<close> looks at: the keys, and the kind of each value.\<close>

lemma plain_dict_kinds:
  "plain_dict d = list_all (\<lambda>(k, b). plain_key k \<and> b) (map (apsnd plain_value) d)"
  by (induction d) (auto simp: plain_dict_def)

lemma kinds_update:
  "map (apsnd plain_value) (AList.update k v d)
     = AList.update k (plain_value v) (map (apsnd plain_value) d)"
  by (induction d) auto

lemma kinds_fold_update:
  "map (apsnd plain_value) (fold (\<lambda>(k, v). AList.update k v) ds d)
     = fold (\<lambda>(k, b). AList.update k b) (map (apsnd plain_value) ds)
         (map (apsnd plain_value) d)"
proof (induction ds arbitrary: d)
  case Nil
  show ?case by simp
next
  case (Cons x ds)
  obtain k v where x: "x = (k, v)" by (cases x)
  show ?case by (simp add: x Cons.IH kinds_update)
qed

lemma kinds_class_definitions:
  "map (apsnd plain_value) (class_definitions (d\<lparr>type_url_suffix := s\<rparr>))
     = map (apsnd plain_value) (class_definitions d)"
  by (simp add: class_definitions_def Let_def kinds_fold_update kinds_update split: option.splits)

lemma build_class_plain:
  assumes "bases d = None" "definitions d = None" "CHR 0x00 \<notin> set (name d)"
  shows "\<exists>c. build_class d = Inr c \<and> cls_name c = name d \<and>
             cls_type_url_suffix c = Inr (type_url_suffix d)"
  using assms
  by (auto simp: build_class_def class_bases_def class_definitions_def Let_def py_type_def
        plain_dict_def plain_key_def cls_type_url_suffix_def update_conv' split: option.splits)


lemma build_class_segment:
  assumes "build_class d = Inr c"
  shows "\<exists>c'. build_class (d\<lparr>type_url_suffix := s\<rparr>) = Inr c'"
proof -
  have "plain_dict (class_definitions (d\<lparr>type_url_suffix := s\<rparr>)) = plain_dict (class_definitions d)"
    by (simp only: plain_dict_kinds kinds_class_definitions)
  with assms show ?thesis
    by (simp add: build_class_def py_type_def class_bases_def split: if_splits)
qed

lemma describe_simps:
  "bases (describe nm sfx doc) = None" "definitions (describe nm sfx doc) = None"
  "name (describe nm sfx doc) = nm" "type_url_suffix (describe nm sfx doc) = sfx"
  by (simp_all add: describe_def)



lemma build_classes_segment:
  "build_classes ds = Inr cs \<Longrightarrow>
   \<exists>cs'. build_classes (map (\<lambda>d. d\<lparr>type_url_suffix := s\<rparr>) ds) = Inr cs' \<and> length cs' = length cs"
proof (induction ds arbitrary: cs)
  case Nil
  then show ?case by simp
next
  case (Cons d ds)
  from Cons.prems obtain c cs0 where
    c: "build_class d = Inr c" and cs0: "build_classes ds = Inr cs0" and cs: "cs = c # cs0"
    by (auto split: sum.splits)
  from build_class_segment [OF c, of s] obtain c' where
    c': "build_class (d\<lparr>type_url_suffix := s\<rparr>) = Inr c'" by blast
  from Cons.IH [OF cs0] obtain cs' where
    "build_classes (map (\<lambda>d. d\<lparr>type_url_suffix := s\<rparr>) ds) = Inr cs'" "length cs' = length cs0"
    by blast
  with c' cs show ?case by simp
qed




text \<open>
  C6, as the code has it. \<^verbatim>\<open>build_classes\<close> does not look at the address segment. A
  description with an empty \<^verbatim>\<open>type_url_suffix\<close> (no extra bases, no \<^verbatim>\<open>definitions\<close>, no
  NUL in the name) is built without an error; the class has the empty segment, and the
  address of an instance under the root is the base address followed at once by the id.
  And whatever list of descriptions the factory builds, it also builds when every
  segment in it is replaced by the empty string.
\<close>

theorem build_classes_accepts_empty_suffix:
  "(bases d = None \<and> definitions d = None \<and> CHR 0x00 \<notin> set (name d) \<and>
    type_url_suffix d = [] \<longrightarrow>
      (\<exists>c. build_classes [d] = Inr [c] \<and> cls_name c = name d \<and>
            cls_type_url_suffix c = Inr [] \<and>
            obj_url cdom (SimProObject c i Parentless a) = Inr (BASE_API_URL cdom @ str_int i))) \<and>
   (build_classes ds = Inr cs \<longrightarrow>
      (\<exists>cs'. build_classes (map (\<lambda>d. d\<lparr>type_url_suffix := []\<rparr>) ds) = Inr cs' \<and>
             length cs' = length cs))"
proof (intro conjI impI)
  assume h: "bases d = None \<and> definitions d = None \<and> CHR 0x00 \<notin> set (name d) \<and>
    type_url_suffix d = []"
  from build_class_plain [of d] h obtain c :: py_class where
    "build_class d = Inr c" "cls_name c = name d" "cls_type_url_suffix c = Inr []"
    by auto
  then show "\<exists>c. build_classes [d] = Inr [c] \<and> cls_name c = name d \<and>
            cls_type_url_suffix c = Inr [] \<and>
            obj_url cdom (SimProObject c i Parentless a) = Inr (BASE_API_URL cdom @ str_int i)"
    by simp
next
  assume "build_classes ds = Inr cs"
  then show "\<exists>cs'. build_classes (map (\<lambda>d. d\<lparr>type_url_suffix := []\<rparr>) ds) = Inr cs' \<and>
             length cs' = length cs"
    by (rule build_classes_segment)
qed

theorem build_classes_accepts_empty_suffix_witness:
  "build_classes [describe ''X'' [] ''x''] = Inr [simple_class ''X'' [] ''x''] \<and>
   obj_url ''acme'' (SimProObject (simple_class ''X'' [] ''x'') 5 Parentless [])
     = Inr ''https://acme.simprosuite.com/api/v1.05'' \<and>
   build_classes [describe ''A'' ''/a/'' ''x'', describe ''B'' ''/b/'' ''y'']
     = Inr [simple_class ''A'' ''/a/'' ''x'', simple_class ''B'' ''/b/'' ''y''] \<and>
   build_classes (map (\<lambda>d. d\<lparr>type_url_suffix := []\<rparr>)
                    [describe ''A'' ''/a/'' ''x'', describe ''B'' ''/b/'' ''y''])
     = Inr [simple_class ''A'' [] ''x'', simple_class ''B'' [] ''y'']"
proof -
  let ?d = "describe ''X'' [] ''x''"
  let ?ds = "[describe ''A'' ''/a/'' ''x'', describe ''B'' ''/b/'' ''y'']"
  let ?cs = "[simple_class ''A'' ''/a/'' ''x'', simple_class ''B'' ''/b/'' ''y'']"
  note ev = build_class_def class_bases_def class_definitions_def py_type_def plain_dict_def
    plain_key_def describe_def simple_class_def
  have h: "bases ?d = None \<and> definitions ?d = None \<and> CHR 0x00 \<notin> set (name ?d) \<and>
    type_url_suffix ?d = []"
    by (simp add: describe_simps)
  have e: "build_classes [?d] = Inr [simple_class ''X'' [] ''x'']" by (simp add: ev)
  have e2: "build_classes ?ds = Inr ?cs" by (simp add: ev)
  have e3: "build_classes (map (\<lambda>d. d\<lparr>type_url_suffix := []\<rparr>) ?ds)
              = Inr [simple_class ''A'' [] ''x'', simple_class ''B'' [] ''y'']"
    by (simp add: ev)
  have n5: "str_int 5 = ''5''" by code_simp
  have b: "BASE_API_URL ''acme'' = ''https://acme.simprosuite.com/api/v1.0''"
    by (simp add: BASE_API_URL_def BASE_URL_def)
  from build_classes_accepts_empty_suffix [of ?d "''acme''" 5 "[]" ?ds ?cs] h e e2 e3
  show ?thesis by (simp add: n5 b)
qed

text \<open>
  C6 as the spec states it fails: a description with the empty segment is registered
  without an error.
\<close>

theorem build_classes_empty_suffix_counterexample:
  "build_classes [describe ''X'' [] ''x''] = Inr [simple_class ''X'' [] ''x''] \<and>
   cls_type_url_suffix (simple_class ''X'' [] ''x'') = Inr []"
  by (simp add: build_class_def class_bases_def class_definitions_def py_type_def plain_dict_def
        plain_key_def describe_def simple_class_def cls_type_url_suffix_def)

section \<open>Properties of \<^verbatim>\<open>create_site\<close>\<close>

lemma map_of_dict_update:
  "map_of (dict_update d other) = map_of d ++ map_of (rev other)"
  by (simp add: dict_update_def map_of_fold_update)

lemma map_of_rev_None: "map_of xs k = None \<Longrightarrow> map_of (rev xs) k = None"
  by (simp add: map_of_eq_None_iff)

lemma map_of_rev_Some:
  assumes "distinct (map fst xs)" "map_of xs k = Some y"
  shows "map_of (rev xs) k = Some y"
proof -
  from assms have "(k, y) \<in> set (rev xs)" by simp
  moreover from assms have "distinct (map fst (rev xs))" by (simp add: rev_map [symmetric])
  ultimately show ?thesis by (simp only: map_of_eq_Some_iff)
qed

lemma example_name:
  "py_join '' '' (py_split (remove_newlines ''Line1\<newline>Extra   spaces''))
     = ''Line1Extra spaces''"
  by (simp add: remove_newlines_def py_split_def is_space_def)

text \<open>
  C4, as the code has it. Without a \<^verbatim>\<open>"Name"\<close>, and with the street address
  \<^verbatim>\<open>"Line1\nExtra   spaces"\<close> in the nested address, the derived name is
  \<^verbatim>\<open>"Line1Extra spaces"\<close>: the newline is removed without a space in its place, then the
  runs of whitespace are collapsed to one space each. That name is the \<^verbatim>\<open>"Name"\<close> of the
  record attributes. With a \<^verbatim>\<open>"Name"\<close> among the attributes, the record attributes carry
  the caller's name.
\<close>

theorem set_name_example:
  "(map_of sa ''Name'' = None \<and> map_of sa ''Address'' = Some (JObj addr) \<and>
    map_of addr ''Address'' = Some (JStr ''Line1\<newline>Extra   spaces'') \<longrightarrow>
      set_name sa = Inr (JStr ''Line1Extra spaces'') \<and>
      (\<exists>ra. site_record_attributes sa = Inr ra \<and>
            map_of ra ''Name'' = Some (JStr ''Line1Extra spaces''))) \<and>
   (distinct (map fst sa) \<and> map_of sa ''Name'' = Some v \<longrightarrow>
      (\<exists>ra. site_record_attributes sa = Inr ra \<and> map_of ra ''Name'' = Some v))"
proof (intro conjI impI)
  assume h: "map_of sa ''Name'' = None \<and> map_of sa ''Address'' = Some (JObj addr) \<and>
    map_of addr ''Address'' = Some (JStr ''Line1\<newline>Extra   spaces'')"
  then have s: "set_name sa = Inr (JStr ''Line1Extra spaces'')"
    unfolding set_name_def by (simp add: example_name)
  then show "set_name sa = Inr (JStr ''Line1Extra spaces'')" .
  from h have "map_of (rev sa) ''Name'' = None" by (simp add: map_of_rev_None)
  with s show "\<exists>ra. site_record_attributes sa = Inr ra \<and>
            map_of ra ''Name'' = Some (JStr ''Line1Extra spaces'')"
    by (simp add: site_record_attributes_def map_of_dict_update map_add_def)
next
  assume h: "distinct (map fst sa) \<and> map_of sa ''Name'' = Some v"
  then have s: "set_name sa = Inr v" by (simp add: set_name_def)
  from h have "map_of (rev sa) ''Name'' = Some v" by (simp add: map_of_rev_Some)
  with s show "\<exists>ra. site_record_attributes sa = Inr ra \<and> map_of ra ''Name'' = Some v"
    by (simp add: site_record_attributes_def map_of_dict_update map_add_def)
qed

theorem set_name_example_witness:
  "set_name [(''Address'', JObj [(''Address'', JStr ''Line1\<newline>Extra   spaces'')])]
     = Inr (JStr ''Line1Extra spaces'') \<and>
   site_record_attributes [(''City'', JStr ''Rome''), (''Name'', JStr ''Depot'')]
     = Inr [(''Name'', JStr ''Depot''), (''City'', JStr ''Rome'')]"
proof -
  let ?addr = "[(''Address'', JStr ''Line1\<newline>Extra   spaces'')]"
  let ?sa = "[(''Address'', JObj ?addr)]"
  let ?sb = "[(''City'', JStr ''Rome''), (''Name'', JStr ''Depot'')]"
  have h1: "map_of ?sa ''Name'' = None \<and> map_of ?sa ''Address'' = Some (JObj ?addr) \<and>
    map_of ?addr ''Address'' = Some (JStr ''Line1\<newline>Extra   spaces'')"
    by simp
  have h2: "distinct (map fst ?sb) \<and> map_of ?sb ''Name'' = Some (JStr ''Depot'')"
    by simp
  have e: "site_record_attributes ?sb = Inr [(''Name'', JStr ''Depot''), (''City'', JStr ''Rome'')]"
    by (simp add: site_record_attributes_def set_name_def dict_update_def)
  from set_name_example [of ?sa ?addr "JNull"] h1
  have a: "set_name ?sa = Inr (JStr ''Line1Extra spaces'')" by blast
  from set_name_example [of ?sb "[]" "JStr ''Depot''"] h2
  have "\<exists>ra. site_record_attributes ?sb = Inr ra \<and> map_of ra ''Name'' = Some (JStr ''Depot'')"
    by blast
  with a e show ?thesis by simp
qed

text \<open>
  C4 as the spec states it fails: the derived name of the example is not
  \<^verbatim>\<open>"Line1 Extra spaces"\<close>.
\<close>

theorem set_name_example_counterexample:
  "set_name [(''Address'', JObj [(''Address'', JStr ''Line1\<newline>Extra   spaces'')])]
     = Inr (JStr ''Line1Extra spaces'') \<and>
   set_name [(''Address'', JObj [(''Address'', JStr ''Line1\<newline>Extra   spaces'')])]
     \<noteq> Inr (JStr ''Line1 Extra spaces'')"
  by (simp add: set_name_def remove_newlines_def py_split_def is_space_def)

section \<open>Properties of \<^verbatim>\<open>retrieve\<close> and of the column lists\<close>

lemma priv_retrieve_status:
  assumes "type_url cdom cls parent = Inr u"
    and "srv (Get (u @ str_int i)
               \<lparr>columns = fst (priv_columns_to_params cols), pageSize = None, page = None,
                orderby = None\<rparr>) (world n) = (Some resp, w)"
    and "400 \<le> status_code resp" "status_code resp < 600"
  shows "fst (fst (priv_retrieve srv cdom cls i parent cols n)) = Inl (HTTPError (status_code resp))"
proof -
  obtain cp c' where p: "priv_columns_to_params cols = (cp, c')"
    by (cases "priv_columns_to_params cols")
  with assms show ?thesis
    by (simp add: priv_retrieve_def send_def raise_for_status_def)
qed

text \<open>
  C7, as the code has it. \<^verbatim>\<open>retrieve\<close> has no error of its own for a record that does
  not exist. Whenever the server answers the request with a status from 400 to 599, the
  call raises \<^verbatim>\<open>HTTPError\<close> with that status, whatever the status is; the status
  carried by the exception is all that tells one such failure from another. Against the
  simulated server, an id that no record has is answered with 404, and the call raises
  \<^verbatim>\<open>HTTPError\<close> with status 404.
\<close>

theorem retrieve_raises_HTTPError:
  "(type_url cdom cls parent = Inr u \<and>
    srv (Get (u @ str_int i)
           \<lparr>columns = set (cs @ [''ID'']), pageSize = None, page = None, orderby = None\<rparr>)
        (world n) = (Some resp, w) \<and>
    400 \<le> status_code resp \<and> status_code resp < 600 \<longrightarrow>
      fst (fst (retrieve srv cdom cls i parent (Some cs) n)) = Inl (HTTPError (status_code resp)) \<and>
      exception_class (HTTPError (status_code resp)) = ''HTTPError'') \<and>
   (type_url cdom cls parent = Inr u \<and>
    find (\<lambda>e. coll e @ str_int (rid e) = u @ str_int i) (entries st) = None \<longrightarrow>
      fst (fst (retrieve sim_server cdom cls i parent (Some cs) \<lparr>sent = l, world = st\<rparr>))
        = Inl (HTTPError 404))"
proof (intro conjI impI)
  assume h: "type_url cdom cls parent = Inr u \<and>
    srv (Get (u @ str_int i)
           \<lparr>columns = set (cs @ [''ID'']), pageSize = None, page = None, orderby = None\<rparr>)
        (world n) = (Some resp, w) \<and>
    400 \<le> status_code resp \<and> status_code resp < 600"
  then show "fst (fst (retrieve srv cdom cls i parent (Some cs) n)) = Inl (HTTPError (status_code resp))"
    unfolding retrieve_def
    by (intro priv_retrieve_status [where u = u and w = w]) (simp_all add: priv_columns_to_params_def)
  show "exception_class (HTTPError (status_code resp)) = ''HTTPError''" by simp
next
  assume h: "type_url cdom cls parent = Inr u \<and>
    find (\<lambda>e. coll e @ str_int (rid e) = u @ str_int i) (entries st) = None"
  let ?resp = "\<lparr>status_code = 404, json_body = None, links_next = False\<rparr>"
  have "fst (fst (priv_retrieve sim_server cdom cls i parent (Some cs) \<lparr>sent = l, world = st\<rparr>))
          = Inl (HTTPError (status_code ?resp))"
    using h by (intro priv_retrieve_status [where u = u and w = st]) simp_all
  then show "fst (fst (retrieve sim_server cdom cls i parent (Some cs) \<lparr>sent = l, world = st\<rparr>))
        = Inl (HTTPError 404)"
    by (simp add: retrieve_def)
qed

lemma simple_class_suffix: "cls_type_url_suffix (simple_class nm sfx doc) = Inr sfx"
  by (simp add: cls_type_url_suffix_def simple_class_def)

lemma type_url_root:
  "type_url cdom (simple_class nm sfx doc) Parentless = Inr (BASE_API_URL cdom @ sfx)"
  by (simp add: type_url_def simple_class_suffix)

theorem retrieve_raises_HTTPError_witness:
  "fst (fst (retrieve scripted_server ''acme'' (simple_class ''Job'' ''/jobs/'' ''j'') 5 Parentless
               (Some [''Name''])
               \<lparr>sent = [], world = [Some (http_response 500 None)]\<rparr>)) = Inl (HTTPError 500) \<and>
   fst (fst (retrieve sim_server ''acme'' (simple_class ''Job'' ''/jobs/'' ''j'') 5 Parentless
               (Some [''Name''])
               \<lparr>sent = [], world = \<lparr>entries = [], next_id = 1\<rparr>\<rparr>)) = Inl (HTTPError 404)"
proof -
  let ?J = "simple_class ''Job'' ''/jobs/'' ''j''"
  let ?u = "BASE_API_URL ''acme'' @ ''/jobs/''"
  let ?n = "\<lparr>sent = [], world = [Some (http_response 500 None)]\<rparr>"
  let ?st = "\<lparr>entries = [], next_id = 1\<rparr>"
  have u: "type_url ''acme'' ?J Parentless = Inr ?u" by (rule type_url_root)
  have r: "scripted_server (Get (?u @ str_int 5)
           \<lparr>columns = set ([''Name''] @ [''ID'']), pageSize = None, page = None, orderby = None\<rparr>)
        (world ?n) = (Some (http_response 500 None), [])" by simp
  have s: "400 \<le> status_code (http_response 500 None) \<and> status_code (http_response 500 None) < 600"
    by (simp add: http_response_def)
  have f: "find (\<lambda>e. coll e @ str_int (rid e) = ?u @ str_int 5) (entries ?st) = None" by simp
  from retrieve_raises_HTTPError [of "''acme''" ?J Parentless ?u scripted_server 5 "[''Name'']" ?n
      "http_response 500 None" "[]" ?st "[]"] u r s f
  show ?thesis by (simp add: http_response_def)
qed

text \<open>
  C7 as the spec states it fails: the exception for an id that does not exist (status
  404) and the exception for a server failure (status 500) are of the same class.
\<close>

theorem retrieve_not_found_counterexample:
  "fst (fst (retrieve sim_server ''acme'' (simple_class ''Job'' ''/jobs/'' ''j'') 5 Parentless None
               \<lparr>sent = [], world = \<lparr>entries = [], next_id = 1\<rparr>\<rparr>)) = Inl (HTTPError 404) \<and>
   fst (fst (retrieve scripted_server ''acme'' (simple_class ''Job'' ''/jobs/'' ''j'') 5 Parentless None
               \<lparr>sent = [], world = [Some (http_response 500 None)]\<rparr>)) = Inl (HTTPError 500) \<and>
   exception_class (HTTPError 404) = exception_class (HTTPError 500)"
  by (simp add: retrieve_def priv_retrieve_def priv_columns_to_params_def type_url_root send_def
        raise_for_status_def http_response_def)

text \<open>
  C10. For a caller's list \<open>cs\<close>, \<^verbatim>\<open>_columns_to_params\<close> leaves \<^verbatim>\<open>"ID"\<close> appended to
  it. So does every call of \<^verbatim>\<open>_list_all\<close> and \<^verbatim>\<open>list_all\<close> that returns or raises, and
  every call of \<^verbatim>\<open>_retrieve\<close> and \<^verbatim>\<open>retrieve\<close>. \<^verbatim>\<open>Company.list_all\<close> puts \<^verbatim>\<open>"Name"\<close> in
  front as well, and the list is two items longer afterwards.
\<close>

theorem columns_mutated_in_place:
  "priv_columns_to_params (Some cs) = (set (cs @ [''ID'']), cs @ [''ID'']) \<and>
   (priv_list_all srv cdom cls parent (Some cs) n = Some ((r1, cols1), n1) \<longrightarrow>
      cols1 = cs @ [''ID'']) \<and>
   (list_all_obj srv cdom cls parent (Some cs) n = Some ((r2, cols2), n2) \<longrightarrow>
      cols2 = cs @ [''ID'']) \<and>
   snd (fst (priv_retrieve srv cdom cls i parent (Some cs) n)) = cs @ [''ID''] \<and>
   snd (fst (retrieve srv cdom cls i parent (Some cs) n)) = cs @ [''ID''] \<and>
   (Company_list_all srv cdom cls parent (Some cs) n = Some ((r3, cols3), n3) \<longrightarrow>
      cols3 = ''Name'' # cs @ [''ID''] \<and> length cols3 = length cs + 2)"
proof -
  have a: "\<And>c r cols' n'. priv_list_all srv cdom cls parent (Some c) n = Some ((r, cols'), n')
             \<Longrightarrow> cols' = c @ [''ID'']"
    by (auto simp: priv_list_all_def priv_columns_to_params_def split: sum.splits)
  have b: "\<And>c. snd (fst (priv_retrieve srv cdom cls i parent (Some c) n)) = c @ [''ID'']"
    by (simp add: priv_retrieve_def priv_columns_to_params_def split: sum.splits prod.splits)
  show ?thesis
    using a [of cs r1 cols1 n1] a [of cs r2 cols2 n2] a [of "''Name'' # cs" r3 cols3 n3] b [of cs]
    by (auto simp: list_all_obj_def retrieve_def Company_list_all_def priv_columns_to_params_def)
qed

lemma page_slice_Nil: "page_slice k p [] = []" by (simp add: page_slice_def)

lemma list_all_empty_store:
  "priv_list_all sim_server cdom (simple_class nm sfx doc) Parentless (Some cs)
     \<lparr>sent = [], world = \<lparr>entries = [], next_id = k\<rparr>\<rparr>
   = Some ((Inr [], cs @ [''ID'']),
       \<lparr>sent = [Get (BASE_API_URL cdom @ sfx)
                  \<lparr>columns = set (cs @ [''ID'']), pageSize = Some 250, page = Some 1,
                   orderby = Some ''ID''\<rparr>],
        world = \<lparr>entries = [], next_id = k\<rparr>\<rparr>)"
  apply (simp add: priv_list_all_def priv_columns_to_params_def type_url_root)
  apply (subst list_all_loop.simps)
  apply (simp add: send_def children_of_def page_slice_Nil raise_for_status_def decode_page_def
      response_json_def)
  done

theorem columns_mutated_in_place_witness:
  "map_option (\<lambda>x. snd (fst x))
     (list_all_obj sim_server ''acme'' (simple_class ''Job'' ''/jobs/'' ''j'') Parentless
        (Some [''Phone'']) \<lparr>sent = [], world = \<lparr>entries = [], next_id = 1\<rparr>\<rparr>)
     = Some [''Phone'', ''ID''] \<and>
   map_option (\<lambda>x. snd (fst x))
     (Company_list_all sim_server ''acme'' (simple_class ''Company'' ''/companies/'' ''c'') Parentless
        (Some [''Phone'']) \<lparr>sent = [], world = \<lparr>entries = [], next_id = 1\<rparr>\<rparr>)
     = Some [''Name'', ''Phone'', ''ID'']"
proof -
  let ?J = "simple_class ''Job'' ''/jobs/'' ''j''"
  let ?C = "simple_class ''Company'' ''/companies/'' ''c''"
  let ?n = "\<lparr>sent = [], world = \<lparr>entries = [], next_id = 1\<rparr>\<rparr>"
  let ?rq = "\<lambda>u cs. Get u \<lparr>columns = set (cs @ [''ID'']), pageSize = Some 250, page = Some 1,
                   orderby = Some ''ID''\<rparr>"
  let ?nj = "\<lparr>sent = [?rq (BASE_API_URL ''acme'' @ ''/jobs/'') [''Phone'']],
             world = \<lparr>entries = [], next_id = 1\<rparr>\<rparr>"
  let ?nc = "\<lparr>sent = [?rq (BASE_API_URL ''acme'' @ ''/companies/'') [''Name'', ''Phone'']],
             world = \<lparr>entries = [], next_id = 1\<rparr>\<rparr>"
  have a: "list_all_obj sim_server ''acme'' ?J Parentless (Some [''Phone'']) ?n
             = Some ((Inr [], [''Phone'', ''ID'']), ?nj)"
    using list_all_empty_store [of "''acme''" "''Job''" "''/jobs/''" "''j''" "[''Phone'']" 1]
    by (simp add: list_all_obj_def)
  have b: "Company_list_all sim_server ''acme'' ?C Parentless (Some [''Phone'']) ?n
             = Some ((Inr [], [''Name'', ''Phone'', ''ID'']), ?nc)"
    using list_all_empty_store [of "''acme''" "''Company''" "''/companies/''" "''c''"
        "[''Name'', ''Phone'']" 1]
    by (simp add: Company_list_all_def)
  from columns_mutated_in_place [of "[''Phone'']" sim_server "''acme''" ?J Parentless ?n
      "Inr []" "[''Phone'', ''ID'']" ?nj "Inr []" "[''Phone'', ''ID'']" ?nj 0
      "Inr []" "[''Name'', ''Phone'', ''ID'']" ?nc] a b
  show ?thesis by simp
qed

section \<open>Properties of the retry loop of \<^verbatim>\<open>create_site\<close>\<close>

lemma create_sent:
  "type_url cdom cls parent = Inr u \<Longrightarrow>
   sent (snd (create srv cdom cls parent (Some a) n)) = sent n @ [Post u a]"
  by (simp add: create_def priv_create_def send_def split: prod.splits option.splits sum.splits)

lemma create_site_loop_retry:
  "create srv cdom Site customer (Some ra) n = (Inl (HTTPError s), n') \<Longrightarrow>
   create_site_loop srv cdom Site customer ra (Suc k) n
     = create_site_loop srv cdom Site customer ra k n'"
  by simp

lemma create_site_loop_success:
  "create srv cdom Site customer (Some ra) n = (Inr site, n') \<Longrightarrow>
   create_site_loop srv cdom Site customer ra (Suc k) n = (Inr site, n')"
  by simp

lemma create_site_loop_other:
  "create srv cdom Site customer (Some ra) n = (Inl e, n') \<Longrightarrow>
   exception_class e \<noteq> ''HTTPError'' \<Longrightarrow>
   create_site_loop srv cdom Site customer ra (Suc k) n = (Inl e, n')"
  by (cases e) simp_all

text \<open>
  C3, as the code has it. The customer has an address and the attributes yield record
  attributes. If the first two attempts raise \<^verbatim>\<open>HTTPError\<close> and the third returns a
  site, \<^verbatim>\<open>create_site\<close> returns that site after exactly three POST requests. If all
  three raise \<^verbatim>\<open>HTTPError\<close>, whatever their status codes, it raises
  \<^verbatim>\<open>JobRecordCreationError\<close> after exactly three requests. If the first attempt raises
  an exception that is not an \<^verbatim>\<open>HTTPError\<close>, that exception leaves \<^verbatim>\<open>create_site\<close> at
  once, after one request.
\<close>

theorem create_site_retries_every_HTTPError:
  assumes u: "type_url cdom Site customer = Inr u"
    and ra: "site_record_attributes sa = Inr ra"
  shows
  "(create srv cdom Site customer (Some ra) n = (Inl (HTTPError s1), n1) \<and>
    create srv cdom Site customer (Some ra) n1 = (Inl (HTTPError s2), n2) \<and>
    create srv cdom Site customer (Some ra) n2 = (Inr site, n3) \<longrightarrow>
      create_site srv cdom Site customer sa n = (Inr site, n3) \<and>
      sent n3 = sent n @ [Post u ra, Post u ra, Post u ra]) \<and>
   (create srv cdom Site customer (Some ra) n = (Inl (HTTPError s1), n1) \<and>
    create srv cdom Site customer (Some ra) n1 = (Inl (HTTPError s2), n2) \<and>
    create srv cdom Site customer (Some ra) n2 = (Inl (HTTPError s3), n3) \<longrightarrow>
      create_site srv cdom Site customer sa n = (Inl JobRecordCreationError, n3) \<and>
      sent n3 = sent n @ [Post u ra, Post u ra, Post u ra]) \<and>
   (create srv cdom Site customer (Some ra) n = (Inl e, n1) \<and>
    exception_class e \<noteq> ''HTTPError'' \<longrightarrow>
      create_site srv cdom Site customer sa n = (Inl e, n1) \<and>
      sent n1 = sent n @ [Post u ra])"
proof -
  have three: "3 = Suc (Suc (Suc 0))" by simp
  have cs: "create_site srv cdom Site customer sa n
              = create_site_loop srv cdom Site customer ra (Suc (Suc (Suc 0))) n"
    by (simp add: create_site_def ra three)
  have log: "\<And>m r m'. create srv cdom Site customer (Some ra) m = (r, m')
                \<Longrightarrow> sent m' = sent m @ [Post u ra]"
    using create_sent [OF u, of srv ra] by (metis snd_conv)
  show ?thesis
  proof (intro conjI impI)
    assume h: "create srv cdom Site customer (Some ra) n = (Inl (HTTPError s1), n1) \<and>
      create srv cdom Site customer (Some ra) n1 = (Inl (HTTPError s2), n2) \<and>
      create srv cdom Site customer (Some ra) n2 = (Inr site, n3)"
    then show "create_site srv cdom Site customer sa n = (Inr site, n3)"
      by (simp add: cs)
    from h log [of n _ n1] log [of n1 _ n2] log [of n2 _ n3]
    show "sent n3 = sent n @ [Post u ra, Post u ra, Post u ra]" by simp
  next
    assume h: "create srv cdom Site customer (Some ra) n = (Inl (HTTPError s1), n1) \<and>
      create srv cdom Site customer (Some ra) n1 = (Inl (HTTPError s2), n2) \<and>
      create srv cdom Site customer (Some ra) n2 = (Inl (HTTPError s3), n3)"
    then show "create_site srv cdom Site customer sa n = (Inl JobRecordCreationError, n3)"
      by (simp add: cs)
    from h log [of n _ n1] log [of n1 _ n2] log [of n2 _ n3]
    show "sent n3 = sent n @ [Post u ra, Post u ra, Post u ra]" by simp
  next
    assume h: "create srv cdom Site customer (Some ra) n = (Inl e, n1) \<and>
      exception_class e \<noteq> ''HTTPError''"
    then show "create_site srv cdom Site customer sa n = (Inl e, n1)"
      unfolding cs by (intro create_site_loop_other) simp_all
    from h log [of n _ n1] show "sent n1 = sent n @ [Post u ra]" by simp
  qed
qed

lemma create_scripted:
  assumes "type_url cdom cls parent = Inr u"
  shows "create scripted_server cdom cls parent (Some a) \<lparr>sent = l, world = Some (http_response st j) # rs\<rparr>
     = (if 400 \<le> st \<and> st < 600 then Inl (HTTPError st)
        else case j of None \<Rightarrow> Inl JSONDecodeError
             | Some v \<Rightarrow> (case pop_ID v of Inl e \<Rightarrow> Inl e
                          | Inr (i, at) \<Rightarrow> Inr (SimProObject cls i parent at)),
        \<lparr>sent = l @ [Post u a], world = rs\<rparr>)"
  using assms
  by (simp add: create_def priv_create_def send_def raise_for_status_def http_response_def
        response_json_def split: option.splits sum.splits)

lemma create_scripted_none:
  assumes "type_url cdom cls parent = Inr u"
  shows "create scripted_server cdom cls parent (Some a) \<lparr>sent = l, world = None # rs\<rparr>
     = (Inl ConnectionError, \<lparr>sent = l @ [Post u a], world = rs\<rparr>)"
  using assms by (simp add: create_def priv_create_def send_def)

theorem create_site_retries_every_HTTPError_witness:
  "create_site scripted_server ''acme'' (simple_class ''Site'' ''/sites/'' ''s'')
      (SimProObject (simple_class ''CompanyCustomer'' ''/customers/companies/'' ''c'') 7 Parentless [])
      []
      \<lparr>sent = [], world = [Some (http_response 503 None), Some (http_response 503 None),
                           Some (http_response 201 (Some (JObj [(''Name'', JStr []), (''ID'', JInt 9)])))]\<rparr>
    = (Inr (SimProObject (simple_class ''Site'' ''/sites/'' ''s'') 9
             (SimProObject (simple_class ''CompanyCustomer'' ''/customers/companies/'' ''c'') 7 Parentless [])
             [(''Name'', JStr [])]),
       \<lparr>sent = replicate 3 (Post (BASE_API_URL ''acme'' @ ''/customers/companies/'' @ str_int 7 @ ''/sites/'')
                               [(''Name'', JStr [])]),
        world = []\<rparr>) \<and>
   create_site scripted_server ''acme'' (simple_class ''Site'' ''/sites/'' ''s'')
      (SimProObject (simple_class ''CompanyCustomer'' ''/customers/companies/'' ''c'') 7 Parentless [])
      []
      \<lparr>sent = [], world = [Some (http_response 503 None), Some (http_response 500 None),
                           Some (http_response 502 None)]\<rparr>
    = (Inl JobRecordCreationError,
       \<lparr>sent = replicate 3 (Post (BASE_API_URL ''acme'' @ ''/customers/companies/'' @ str_int 7 @ ''/sites/'')
                               [(''Name'', JStr [])]),
        world = []\<rparr>) \<and>
   create_site scripted_server ''acme'' (simple_class ''Site'' ''/sites/'' ''s'')
      (SimProObject (simple_class ''CompanyCustomer'' ''/customers/companies/'' ''c'') 7 Parentless [])
      []
      \<lparr>sent = [], world = [None, Some (http_response 503 None)]\<rparr>
    = (Inl ConnectionError,
       \<lparr>sent = replicate 1 (Post (BASE_API_URL ''acme'' @ ''/customers/companies/'' @ str_int 7 @ ''/sites/'')
                               [(''Name'', JStr [])]),
        world = [Some (http_response 503 None)]\<rparr>)"
proof -
  let ?S = "simple_class ''Site'' ''/sites/'' ''s''"
  let ?c = "SimProObject (simple_class ''CompanyCustomer'' ''/customers/companies/'' ''c'') 7 Parentless []"
  let ?u = "BASE_API_URL ''acme'' @ ''/customers/companies/'' @ str_int 7 @ ''/sites/''"
  let ?ra = "[(''Name'', JStr [])]"
  let ?ok = "Some (http_response 201 (Some (JObj [(''Name'', JStr []), (''ID'', JInt 9)])))"
  let ?e = "\<lambda>k. Some (http_response k None)"
  let ?P = "Post ?u ?ra"
  have u: "type_url ''acme'' ?S ?c = Inr ?u"
    by (simp add: type_url_def simple_class_suffix)
  have ra: "site_record_attributes [] = Inr ?ra"
    by (simp add: site_record_attributes_def set_name_def dict_update_def)
  note cr = create_scripted [OF u] create_scripted_none [OF u]
  note th = create_site_retries_every_HTTPError [OF u ra]
  have a: "create_site scripted_server ''acme'' ?S ?c [] \<lparr>sent = [], world = [?e 503, ?e 503, ?ok]\<rparr>
        = (Inr (SimProObject ?S 9 ?c ?ra), \<lparr>sent = [?P, ?P, ?P], world = []\<rparr>)"
    using th [where srv = scripted_server
        and n = "\<lparr>sent = [], world = [?e 503, ?e 503, ?ok]\<rparr>" and ?s1.0 = 503
        and ?n1.0 = "\<lparr>sent = [?P], world = [?e 503, ?ok]\<rparr>" and ?s2.0 = 503
        and ?n2.0 = "\<lparr>sent = [?P, ?P], world = [?ok]\<rparr>"
        and site = "SimProObject ?S 9 ?c ?ra"
        and ?n3.0 = "\<lparr>sent = [?P, ?P, ?P], world = []\<rparr>"]
    by (simp add: cr)
  have b: "create_site scripted_server ''acme'' ?S ?c [] \<lparr>sent = [], world = [?e 503, ?e 500, ?e 502]\<rparr>
        = (Inl JobRecordCreationError, \<lparr>sent = [?P, ?P, ?P], world = []\<rparr>)"
    using th [where srv = scripted_server
        and n = "\<lparr>sent = [], world = [?e 503, ?e 500, ?e 502]\<rparr>" and ?s1.0 = 503
        and ?n1.0 = "\<lparr>sent = [?P], world = [?e 500, ?e 502]\<rparr>" and ?s2.0 = 500
        and ?n2.0 = "\<lparr>sent = [?P, ?P], world = [?e 502]\<rparr>"
        and ?n3.0 = "\<lparr>sent = [?P, ?P, ?P], world = []\<rparr>" and ?s3.0 = 502]
    by (simp add: cr)
  have c: "create_site scripted_server ''acme'' ?S ?c [] \<lparr>sent = [], world = [None, ?e 503]\<rparr>
        = (Inl ConnectionError, \<lparr>sent = [?P], world = [?e 503]\<rparr>)"
    using th [where srv = scripted_server
        and n = "\<lparr>sent = [], world = [None, ?e 503]\<rparr>" and e = ConnectionError
        and ?n1.0 = "\<lparr>sent = [?P], world = [?e 503]\<rparr>"]
    by (simp add: cr)
  have r3: "replicate 3 ?P = [?P, ?P, ?P]" by (simp add: numeral_3_eq_3)
  show ?thesis unfolding r3 using a b c by simp
qed

text \<open>
  C3 as the spec states it fails: a validation error (status 422) on the first attempt
  does not end the call after one attempt. It is retried like any other status, and
  after three such answers the call raises \<^verbatim>\<open>JobRecordCreationError\<close>.
\<close>

theorem create_site_validation_error_counterexample:
  "create_site scripted_server ''acme'' (simple_class ''Site'' ''/sites/'' ''s'')
      (SimProObject (simple_class ''CompanyCustomer'' ''/customers/companies/'' ''c'') 7 Parentless [])
      []
      \<lparr>sent = [], world = [Some (http_response 422 None), Some (http_response 422 None),
                           Some (http_response 422 None)]\<rparr>
    = (Inl JobRecordCreationError,
       \<lparr>sent = replicate 3 (Post (BASE_API_URL ''acme'' @ ''/customers/companies/'' @ str_int 7 @ ''/sites/'')
                               [(''Name'', JStr [])]),
        world = []\<rparr>)"
proof -
  let ?S = "simple_class ''Site'' ''/sites/'' ''s''"
  let ?c = "SimProObject (simple_class ''CompanyCustomer'' ''/customers/companies/'' ''c'') 7 Parentless []"
  let ?u = "BASE_API_URL ''acme'' @ ''/customers/companies/'' @ str_int 7 @ ''/sites/''"
  have u: "type_url ''acme'' ?S ?c = Inr ?u"
    by (simp add: type_url_def simple_class_suffix)
  have ra: "site_record_attributes [] = Inr [(''Name'', JStr [])]"
    by (simp add: site_record_attributes_def set_name_def dict_update_def)
  show ?thesis
    by (simp add: create_site_def ra numeral_3_eq_3 create_scripted [OF u])
qed

section \<open>Properties of the pagination loop\<close>

lemma pop_ID_entry: "pop_ID (entry_json e) = Inr (rid e, AList.delete ''ID'' (stored e))"
  by (simp add: entry_json_def update_conv' delete_update_same)

lemma decode_all_entries:
  "decode_all cls parent (map entry_json xs) = Inr (map (decoded cls parent) xs)"
  by (induction xs) (simp_all add: pop_ID_entry decoded_def)

lemma list_all_loop_step:
  assumes "send srv (list_request u cp pg) n = (Inr resp, n')"
    and "raise_for_status resp = Inr resp'"
    and "decode_page cls parent resp = Inr objs"
  shows "list_all_loop srv cls parent u cp pg acc n =
           (if links_next resp then list_all_loop srv cls parent u cp (pg + 1) (acc @ objs) n'
            else Some (Inr (acc @ objs), n'))"
  using assms by (subst list_all_loop.simps) (simp add: list_request_def)

lemma send_sim_list:
  "send sim_server (list_request u cp pg) \<lparr>sent = l, world = st\<rparr> =
     (Inr \<lparr>status_code = 200,
           json_body = Some (JList (map entry_json (page_slice 250 pg (children_of u st)))),
           links_next = (pg * 250 < length (children_of u st))\<rparr>,
      \<lparr>sent = l @ [list_request u cp pg], world = st\<rparr>)"
  by (simp add: send_def list_request_def Let_def)

lemma sim_loop_pages:
  assumes "1 \<le> pg"
  shows "list_all_loop sim_server cls parent u cp pg acc \<lparr>sent = l, world = st\<rparr> =
     Some (Inr (acc @ map (decoded cls parent) (drop ((pg - 1) * 250) (children_of u st))),
           \<lparr>sent = l @ map (list_request u cp)
                         [pg ..< Suc (max pg ((length (children_of u st) + 249) div 250))],
            world = st\<rparr>)"
  using assms
proof (induction "length (children_of u st) - pg * 250" arbitrary: pg acc l rule: less_induct)
  case less
  let ?L = "children_of u st"
  let ?resp = "\<lparr>status_code = 200,
           json_body = Some (JList (map entry_json (page_slice 250 pg ?L))),
           links_next = (pg * 250 < length ?L)\<rparr>"
  have step: "list_all_loop sim_server cls parent u cp pg acc \<lparr>sent = l, world = st\<rparr> =
      (if pg * 250 < length ?L
       then list_all_loop sim_server cls parent u cp (pg + 1)
              (acc @ map (decoded cls parent) (page_slice 250 pg ?L))
              \<lparr>sent = l @ [list_request u cp pg], world = st\<rparr>
       else Some (Inr (acc @ map (decoded cls parent) (page_slice 250 pg ?L)),
              \<lparr>sent = l @ [list_request u cp pg], world = st\<rparr>))"
    using list_all_loop_step [of sim_server u cp pg "\<lparr>sent = l, world = st\<rparr>" ?resp
        "\<lparr>sent = l @ [list_request u cp pg], world = st\<rparr>" ?resp cls parent
        "map (decoded cls parent) (page_slice 250 pg ?L)" acc]
    by (simp add: send_sim_list raise_for_status_def decode_page_def response_json_def
          decode_all_entries)
  show ?case
  proof (cases "pg * 250 < length ?L")
    case True
    have m: "length ?L - (pg + 1) * 250 < length ?L - pg * 250" using True by simp
    have pages: "max pg ((length ?L + 249) div 250) = max (pg + 1) ((length ?L + 249) div 250)"
      using True by (simp add: max_def) arith
    have sl: "page_slice 250 pg ?L @ drop (pg * 250) ?L = drop ((pg - 1) * 250) ?L"
    proof -
      have e: "pg * 250 = 250 + (pg - 1) * 250" using less.prems by (cases pg) simp_all
      have "drop (pg * 250) ?L = drop 250 (drop ((pg - 1) * 250) ?L)"
        by (subst e) (simp only: drop_drop)
      then show ?thesis by (simp only: page_slice_def append_take_drop_id)
    qed
    have "pg < Suc ((length ?L + 249) div 250)" using True by arith
    note up = upt_conv_Cons [OF this]
    show ?thesis
      unfolding step pages
      using True less.hyps [OF m, of "acc @ map (decoded cls parent) (page_slice 250 pg ?L)"
          "l @ [list_request u cp pg]"] sl [symmetric]
      by (simp add: up del: upt_Suc)
  next
    case False
    have c: "(length ?L + 249) div 250 \<le> pg" using False by simp
    have sl: "page_slice 250 pg ?L = drop ((pg - 1) * 250) ?L"
    proof -
      have "length (drop ((pg - 1) * 250) ?L) \<le> 250"
        using False less.prems by (simp add: algebra_simps)
      then show ?thesis by (simp add: page_slice_def)
    qed
    show ?thesis
      unfolding step using False c by (simp add: sl max_def)
  qed
qed

lemma priv_list_all_sim:
  assumes "type_url cdom cls parent = Inr u"
  shows "priv_list_all sim_server cdom cls parent (Some cs) \<lparr>sent = l, world = st\<rparr> =
     Some ((Inr (map (decoded cls parent) (children_of u st)), cs @ [''ID'']),
           \<lparr>sent = l @ map (list_request u (set (cs @ [''ID''])))
                         [1 ..< Suc (max 1 ((length (children_of u st) + 249) div 250))],
            world = st\<rparr>)"
  using assms sim_loop_pages [of 1 cls parent u "set (cs @ [''ID''])" "[]" l st]
  by (simp add: priv_list_all_def priv_columns_to_params_def del: upt_Suc)

text \<open>
  C1. The parent has an address \<open>u\<close> for the class, and the simulated server holds \<open>N\<close>
  records under it. Then \<^verbatim>\<open>list_all\<close> returns; it returns the \<open>N\<close> records decoded, in the
  order of the pages (which is the order of the ids); the requests it has sent are the
  pages 1, 2, ... up to \<open>max 1 ((N + 249) div 250)\<close>, one request each with page size 250,
  and the server's records are unchanged. \<open>(N + 249) div 250\<close> is the number
  \<open>N / 250\<close> rounded up, as the last two inequalities say. Against any server, a
  page that is answered and decoded is followed by the request for the next page when
  the response has a \<^verbatim>\<open>next\<close> link, and ends the listing when it has none, whatever
  the number of records on the page.
\<close>

theorem list_all_requests_every_page:
  "(type_url cdom cls parent = Inr u \<and> N = length (children_of u st) \<and>
    cs = (case cols of None \<Rightarrow> [] | Some c \<Rightarrow> c) \<longrightarrow>
      (\<exists>objs n'.
         list_all_obj sim_server cdom cls parent cols \<lparr>sent = [], world = st\<rparr>
           = Some ((Inr objs, cs @ [''ID'']), n') \<and>
         objs = map (decoded cls parent) (children_of u st) \<and>
         length objs = N \<and>
         sent n' = map (list_request u (set (cs @ [''ID'']))) [1 ..< Suc (max 1 ((N + 249) div 250))] \<and>
         length (sent n') = max 1 ((N + 249) div 250) \<and>
         world n' = st)) \<and>
   (send srv (list_request u cp pg) n = (Inr resp, n1) \<and> raise_for_status resp = Inr resp' \<and>
    decode_page cls parent resp = Inr page_objs \<longrightarrow>
      list_all_loop srv cls parent u cp pg acc n =
        (if links_next resp
         then list_all_loop srv cls parent u cp (pg + 1) (acc @ page_objs) n1
         else Some (Inr (acc @ page_objs), n1))) \<and>
   N \<le> 250 * ((N + 249) div 250) \<and> 250 * ((N + 249) div 250) < N + 250"
proof (intro conjI impI)
  assume h: "type_url cdom cls parent = Inr u \<and> N = length (children_of u st) \<and>
    cs = (case cols of None \<Rightarrow> [] | Some c \<Rightarrow> c)"
  then have u: "type_url cdom cls parent = Inr u" by simp
  have "list_all_obj sim_server cdom cls parent cols \<lparr>sent = [], world = st\<rparr>
      = Some ((Inr (map (decoded cls parent) (children_of u st)), cs @ [''ID'']),
           \<lparr>sent = map (list_request u (set (cs @ [''ID''])))
                         [1 ..< Suc (max 1 ((N + 249) div 250))],
            world = st\<rparr>)"
    using priv_list_all_sim [OF u, of cs "[]" st] h by (simp add: list_all_obj_def del: upt_Suc)
  moreover have "length [1 ..< Suc (max 1 ((N + 249) div 250))] = max 1 ((N + 249) div 250)"
    by simp
  ultimately show "\<exists>objs n'.
         list_all_obj sim_server cdom cls parent cols \<lparr>sent = [], world = st\<rparr>
           = Some ((Inr objs, cs @ [''ID'']), n') \<and>
         objs = map (decoded cls parent) (children_of u st) \<and>
         length objs = N \<and>
         sent n' = map (list_request u (set (cs @ [''ID'']))) [1 ..< Suc (max 1 ((N + 249) div 250))] \<and>
         length (sent n') = max 1 ((N + 249) div 250) \<and>
         world n' = st"
    using h by (simp del: upt_Suc)
next
  assume "send srv (list_request u cp pg) n = (Inr resp, n1) \<and> raise_for_status resp = Inr resp' \<and>
    decode_page cls parent resp = Inr page_objs"
  then show "list_all_loop srv cls parent u cp pg acc n =
        (if links_next resp
         then list_all_loop srv cls parent u cp (pg + 1) (acc @ page_objs) n1
         else Some (Inr (acc @ page_objs), n1))"
    by (intro list_all_loop_step [where resp' = resp']) simp_all
next
  show "N \<le> 250 * ((N + 249) div 250)" by arith
  show "250 * ((N + 249) div 250) < N + 250" by arith
qed

lemma length_children_of_all:
  "length (children_of u \<lparr>entries = map (\<lambda>i. \<lparr>coll = u, rid = int i, stored = []\<rparr>) [0 ..< k],
                           next_id = j\<rparr>) = k"
  by (simp add: children_of_def filter_map comp_def)

theorem list_all_requests_every_page_witness:
  "map_option (\<lambda>x. (fst (fst x), length (sent (snd x))))
     (list_all_obj sim_server ''acme'' (simple_class ''Job'' ''/jobs/'' ''j'') Parentless None
        \<lparr>sent = [],
         world = \<lparr>entries = [\<lparr>coll = BASE_API_URL ''acme'' @ ''/jobs/'', rid = 8,
                               stored = [(''Name'', JStr ''b'')]\<rparr>,
                              \<lparr>coll = BASE_API_URL ''acme'' @ ''/quotes/'', rid = 2, stored = []\<rparr>,
                              \<lparr>coll = BASE_API_URL ''acme'' @ ''/jobs/'', rid = 3, stored = []\<rparr>],
                   next_id = 9\<rparr>\<rparr>)
     = Some (Inr [SimProObject (simple_class ''Job'' ''/jobs/'' ''j'') 3 Parentless [],
                  SimProObject (simple_class ''Job'' ''/jobs/'' ''j'') 8 Parentless
                    [(''Name'', JStr ''b'')]], 1) \<and>
   map_option (\<lambda>x. (map_sum id length (fst (fst x)), length (sent (snd x))))
     (list_all_obj sim_server ''acme'' (simple_class ''Job'' ''/jobs/'' ''j'') Parentless None
        \<lparr>sent = [],
         world = \<lparr>entries = map (\<lambda>i. \<lparr>coll = BASE_API_URL ''acme'' @ ''/jobs/'', rid = int i,
                                       stored = []\<rparr>) [0 ..< 251],
                   next_id = 251\<rparr>\<rparr>)
     = Some (Inr 251, 2) \<and>
   map_option (\<lambda>x. (fst x, length (sent (snd x))))
     (list_all_loop scripted_server (simple_class ''Job'' ''/jobs/'' ''j'') Parentless
        (BASE_API_URL ''acme'' @ ''/jobs/'') {''ID''} 1 []
        \<lparr>sent = [],
         world = [Some \<lparr>status_code = 200, json_body = Some (JList []), links_next = True\<rparr>,
                  Some \<lparr>status_code = 200,
                        json_body = Some (JList [JObj [(''ID'', JInt 4)]]), links_next = False\<rparr>]\<rparr>)
     = Some (Inr [SimProObject (simple_class ''Job'' ''/jobs/'' ''j'') 4 Parentless []], 2)"
proof -
  let ?J = "simple_class ''Job'' ''/jobs/'' ''j''"
  let ?u = "BASE_API_URL ''acme'' @ ''/jobs/''"
  let ?e8 = "\<lparr>coll = ?u, rid = 8, stored = [(''Name'', JStr ''b'')]\<rparr>"
  let ?e2 = "\<lparr>coll = BASE_API_URL ''acme'' @ ''/quotes/'', rid = 2, stored = []\<rparr>"
  let ?e3 = "\<lparr>coll = ?u, rid = 3, stored = []\<rparr>"
  let ?stA = "\<lparr>entries = [?e8, ?e2, ?e3], next_id = 9\<rparr>"
  let ?stB = "\<lparr>entries = map (\<lambda>i. \<lparr>coll = ?u, rid = int i, stored = []\<rparr>) [0 ..< 251],
               next_id = 251\<rparr>"
  have u: "type_url ''acme'' ?J Parentless = Inr ?u" by (rule type_url_root)
  have cA: "children_of ?u ?stA = [?e3, ?e8]"
    by (simp add: children_of_def)
  have cB: "length (children_of ?u ?stB) = 251" by (rule length_children_of_all)
  from list_all_requests_every_page [where cdom = "''acme''" and cls = ?J and parent = Parentless
      and u = ?u and N = 2 and st = ?stA and cs = "[]" and cols = None, THEN conjunct1] u cA
  have A: "map_option (\<lambda>x. (fst (fst x), length (sent (snd x))))
     (list_all_obj sim_server ''acme'' ?J Parentless None \<lparr>sent = [], world = ?stA\<rparr>)
     = Some (Inr [SimProObject ?J 3 Parentless [],
                  SimProObject ?J 8 Parentless [(''Name'', JStr ''b'')]], 1)"
    by (auto simp: decoded_def)
  from list_all_requests_every_page [where cdom = "''acme''" and cls = ?J and parent = Parentless
      and u = ?u and N = 251 and st = ?stB and cs = "[]" and cols = None, THEN conjunct1] u cB
  have B: "map_option (\<lambda>x. (map_sum id length (fst (fst x)), length (sent (snd x))))
     (list_all_obj sim_server ''acme'' ?J Parentless None \<lparr>sent = [], world = ?stB\<rparr>)
     = Some (Inr 251, 2)"
    by auto
  let ?r1 = "\<lparr>status_code = 200, json_body = Some (JList []), links_next = True\<rparr>"
  let ?r2 = "\<lparr>status_code = 200, json_body = Some (JList [JObj [(''ID'', JInt 4)]]),
              links_next = False\<rparr>"
  let ?q = "\<lambda>p. list_request ?u {''ID''} p"
  have s1: "list_all_loop scripted_server ?J Parentless ?u {''ID''} 1 []
              \<lparr>sent = [], world = [Some ?r1, Some ?r2]\<rparr>
          = list_all_loop scripted_server ?J Parentless ?u {''ID''} (Suc (Suc 0)) []
              \<lparr>sent = [?q 1], world = [Some ?r2]\<rparr>"
    using list_all_requests_every_page [where srv = scripted_server and u = ?u and cp = "{''ID''}"
        and pg = 1 and n = "\<lparr>sent = [], world = [Some ?r1, Some ?r2]\<rparr>" and resp = ?r1
        and ?n1.0 = "\<lparr>sent = [?q 1], world = [Some ?r2]\<rparr>" and resp' = ?r1 and cls = ?J
        and parent = Parentless and page_objs = "[]" and acc = "[]",
        THEN conjunct2, THEN conjunct1]
    by (simp add: send_def raise_for_status_def decode_page_def response_json_def)
  have s2: "list_all_loop scripted_server ?J Parentless ?u {''ID''} (Suc (Suc 0)) []
              \<lparr>sent = [?q 1], world = [Some ?r2]\<rparr>
          = Some (Inr [SimProObject ?J 4 Parentless []], \<lparr>sent = [?q 1, ?q (Suc (Suc 0))], world = []\<rparr>)"
    using list_all_requests_every_page [where srv = scripted_server and u = ?u and cp = "{''ID''}"
        and pg = "Suc (Suc 0)" and n = "\<lparr>sent = [?q 1], world = [Some ?r2]\<rparr>" and resp = ?r2
        and ?n1.0 = "\<lparr>sent = [?q 1, ?q (Suc (Suc 0))], world = []\<rparr>" and resp' = ?r2 and cls = ?J
        and parent = Parentless and page_objs = "[SimProObject ?J 4 Parentless []]" and acc = "[]",
        THEN conjunct2, THEN conjunct1]
    by (simp add: send_def raise_for_status_def decode_page_def response_json_def)
  show ?thesis using A B s1 s2 by simp
qed

section \<open>Properties of the default section and cost center\<close>

lemma str_nat_nonempty: "str_nat n \<noteq> []"
  by (subst str_nat.simps) simp

lemma str_int_nonempty: "str_int i \<noteq> []"
  by (simp add: str_int_def str_nat_nonempty)

lemma list_all_obj_sim:
  assumes "type_url cdom cls parent = Inr u"
  shows "list_all_obj sim_server cdom cls parent None \<lparr>sent = l, world = st\<rparr> =
     Some ((Inr (map (decoded cls parent) (children_of u st)), [''ID'']),
           \<lparr>sent = l @ map (list_request u {''ID''})
                         [1 ..< Suc (max 1 ((length (children_of u st) + 249) div 250))],
            world = st\<rparr>)"
  using priv_list_all_sim [OF assms, of "[]" l st]
  by (simp add: list_all_obj_def del: upt_Suc)

lemma create_sim:
  assumes "type_url cdom cls parent = Inr u"
  shows "create sim_server cdom cls parent a \<lparr>sent = l, world = st\<rparr> =
     (Inr (SimProObject cls (next_id st) parent
             (AList.delete ''ID'' (case a of None \<Rightarrow> [] | Some d \<Rightarrow> d))),
      \<lparr>sent = l @ [Post u (case a of None \<Rightarrow> [] | Some d \<Rightarrow> d)],
       world = add_entry u (case a of None \<Rightarrow> [] | Some d \<Rightarrow> d) st\<rparr>)"
  using assms
  by (simp add: create_def priv_create_def send_def raise_for_status_def response_json_def
        update_conv' delete_update_same)

lemma children_of_add_other:
  "u' \<noteq> u \<Longrightarrow> children_of u (add_entry u' a st) = children_of u st"
  by (simp add: children_of_def add_entry_def)

lemma sort_key_eq_Nil: "(sort_key f xs = []) = (xs = [])"
  using length_sort [of f xs] by (metis length_0_conv)

lemma children_of_add_same_nonempty: "children_of u (add_entry u a st) \<noteq> []"
  by (simp add: children_of_def add_entry_def sort_key_eq_Nil)

lemma children_of_add_first:
  "children_of u st = [] \<Longrightarrow>
   children_of u (add_entry u a st)
     = [\<lparr>coll = u, rid = next_id st, stored = AList.delete ''ID'' a\<rparr>]"
  by (simp add: children_of_def add_entry_def sort_key_eq_Nil)

lemma type_url_child:
  "obj_url cdom p = Inr pu \<Longrightarrow> cls_type_url_suffix c = Inr s \<Longrightarrow> type_url cdom c p = Inr (pu @ s)"
  by (simp add: type_url_def)

lemma is_get_list_request: "list_all is_get (map (list_request u cp) ps)"
  by (simp add: list_all_iff list_request_def)

lemma ensure_sim_noop:
  assumes ju: "obj_url cdom job = Inr ju"
    and s1: "cls_type_url_suffix Section = Inr s1"
    and s2: "cls_type_url_suffix JobCostCenter = Inr s2"
    and S: "children_of (ju @ s1) st \<noteq> []"
    and C: "children_of (ju @ s1 @ str_int (rid (hd (children_of (ju @ s1) st))) @ s2) st \<noteq> []"
  shows "\<exists>ext. ensure_default_children sim_server cdom Section JobCostCenter job
                 \<lparr>sent = l, world = st\<rparr>
               = Some (Inr (), \<lparr>sent = l @ ext, world = st\<rparr>) \<and> list_all is_get ext"
proof -
  let ?S = "children_of (ju @ s1) st"
  let ?i = "rid (hd ?S)"
  let ?sec = "decoded Section job (hd ?S)"
  let ?U2 = "ju @ s1 @ str_int ?i @ s2"
  let ?p1 = "map (list_request (ju @ s1) {''ID''}) [1 ..< Suc (max 1 ((length ?S + 249) div 250))]"
  let ?p2 = "map (list_request ?U2 {''ID''})
               [1 ..< Suc (max 1 ((length (children_of ?U2 st) + 249) div 250))]"
  have u1: "type_url cdom Section job = Inr (ju @ s1)" using ju s1 by (rule type_url_child)
  have sec: "obj_url cdom ?sec = Inr (ju @ s1 @ str_int ?i)"
    using ju s1 by (simp add: decoded_def)
  have u2: "type_url cdom JobCostCenter ?sec = Inr ?U2"
    using type_url_child [OF sec s2] by simp
  have hd: "hd (map (decoded Section job) ?S) = ?sec" using S by (simp add: hd_map)
  have "ensure_default_children sim_server cdom Section JobCostCenter job \<lparr>sent = l, world = st\<rparr>
          = Some (Inr (), \<lparr>sent = l @ ?p1 @ ?p2, world = st\<rparr>)"
    unfolding ensure_default_children_def
    using S C by (simp add: list_all_obj_sim [OF u1] hd list_all_obj_sim [OF u2] del: upt_Suc)
  moreover have "list_all is_get (?p1 @ ?p2)"
    using is_get_list_request by (simp del: upt_Suc)
  ultimately show ?thesis by blast
qed

lemma ensure_sim_establishes:
  assumes ju: "obj_url cdom job = Inr ju"
    and s1: "cls_type_url_suffix Section = Inr s1"
    and s2: "cls_type_url_suffix JobCostCenter = Inr s2"
  shows "\<exists>ext st'. ensure_default_children sim_server cdom Section JobCostCenter job
                 \<lparr>sent = l, world = st\<rparr>
               = Some (Inr (), \<lparr>sent = l @ ext, world = st'\<rparr>) \<and>
           children_of (ju @ s1) st' \<noteq> [] \<and>
           children_of (ju @ s1 @ str_int (rid (hd (children_of (ju @ s1) st'))) @ s2) st' \<noteq> [] \<and>
           (children_of (ju @ s1) st = [] \<longrightarrow>
              length (children_of (ju @ s1) st') = 1 \<and>
              rid (hd (children_of (ju @ s1) st')) = next_id st \<and>
              (children_of (ju @ s1 @ str_int (next_id st) @ s2) st = [] \<longrightarrow>
                 length (children_of (ju @ s1 @ str_int (next_id st) @ s2) st') = 1))"
proof -
  let ?U1 = "ju @ s1"
  let ?S = "children_of ?U1 st"
  let ?p1 = "map (list_request ?U1 {''ID''}) [1 ..< Suc (max 1 ((length ?S + 249) div 250))]"
  let ?cc = "[(''CostCenter'', JInt DEFAULT_COST_CENTER), (''Name'', JStr ''BOQ'')]"
  have u1: "type_url cdom Section job = Inr ?U1" using ju s1 by (rule type_url_child)
  have ne: "\<And>i. ju @ s1 @ str_int i @ s2 \<noteq> ju @ s1" by (simp add: str_int_nonempty)
  show ?thesis
  proof (cases "?S = []")
    case True
    let ?i = "next_id st"
    let ?st1 = "add_entry ?U1 [] st"
    let ?sec = "SimProObject Section ?i job []"
    let ?U2 = "ju @ s1 @ str_int ?i @ s2"
    let ?C = "children_of ?U2 ?st1"
    let ?p2 = "map (list_request ?U2 {''ID''}) [1 ..< Suc (max 1 ((length ?C + 249) div 250))]"
    have sec: "obj_url cdom ?sec = Inr (ju @ s1 @ str_int ?i)" using ju s1 by simp
    have u2: "type_url cdom JobCostCenter ?sec = Inr ?U2"
      using type_url_child [OF sec s2] by simp
    have S1: "children_of ?U1 ?st1 = [\<lparr>coll = ?U1, rid = ?i, stored = []\<rparr>]"
      using children_of_add_first [OF True, of "[]"] by simp
    have C1: "?C = children_of ?U2 st" using ne [of ?i] by (simp add: children_of_add_other)
    show ?thesis
    proof (cases "?C = []")
      case Cnil: True
      let ?st2 = "add_entry ?U2 ?cc ?st1"
      have r: "ensure_default_children sim_server cdom Section JobCostCenter job
                 \<lparr>sent = l, world = st\<rparr>
               = Some (Inr (), \<lparr>sent = l @ (?p1 @ [Post ?U1 []] @ ?p2 @ [Post ?U2 ?cc]), world = ?st2\<rparr>)"
        unfolding ensure_default_children_def
        using True Cnil
        by (simp add: list_all_obj_sim [OF u1] create_sim [OF u1] list_all_obj_sim [OF u2]
              create_sim [OF u2] del: upt_Suc)
      have S2: "children_of ?U1 ?st2 = [\<lparr>coll = ?U1, rid = ?i, stored = []\<rparr>]"
        using ne [of ?i] S1 by (simp add: children_of_add_other)
      have C2: "children_of ?U2 ?st2 = [\<lparr>coll = ?U2, rid = next_id ?st1, stored = AList.delete ''ID'' ?cc\<rparr>]"
        using children_of_add_first [OF Cnil, of ?cc] by simp
      show ?thesis
        apply (rule exI [of _ "?p1 @ [Post ?U1 []] @ ?p2 @ [Post ?U2 ?cc]"])
        apply (rule exI [of _ ?st2])
        apply (simp only: r S2)
        apply (simp add: C2)
        done
    next
      case Cne: False
      have r: "ensure_default_children sim_server cdom Section JobCostCenter job
                 \<lparr>sent = l, world = st\<rparr>
               = Some (Inr (), \<lparr>sent = l @ (?p1 @ [Post ?U1 []] @ ?p2), world = ?st1\<rparr>)"
        unfolding ensure_default_children_def
        using True Cne
        by (simp add: list_all_obj_sim [OF u1] create_sim [OF u1] list_all_obj_sim [OF u2]
              del: upt_Suc)
      show ?thesis
        apply (rule exI [of _ "?p1 @ [Post ?U1 []] @ ?p2"])
        apply (rule exI [of _ ?st1])
        using Cne C1 True
        apply (simp only: r S1)
        apply simp
        done
    qed
  next
    case False
    let ?i = "rid (hd ?S)"
    let ?sec = "decoded Section job (hd ?S)"
    let ?U2 = "ju @ s1 @ str_int ?i @ s2"
    let ?C = "children_of ?U2 st"
    let ?p2 = "map (list_request ?U2 {''ID''}) [1 ..< Suc (max 1 ((length ?C + 249) div 250))]"
    have sec: "obj_url cdom ?sec = Inr (ju @ s1 @ str_int ?i)"
      using ju s1 by (simp add: decoded_def)
    have u2: "type_url cdom JobCostCenter ?sec = Inr ?U2"
      using type_url_child [OF sec s2] by simp
    have hd: "hd (map (decoded Section job) ?S) = ?sec" using False by (simp add: hd_map)
    show ?thesis
    proof (cases "?C = []")
      case Cnil: True
      let ?st2 = "add_entry ?U2 ?cc st"
      have r: "ensure_default_children sim_server cdom Section JobCostCenter job
                 \<lparr>sent = l, world = st\<rparr>
               = Some (Inr (), \<lparr>sent = l @ (?p1 @ ?p2 @ [Post ?U2 ?cc]), world = ?st2\<rparr>)"
        unfolding ensure_default_children_def
        using False Cnil
        by (simp add: list_all_obj_sim [OF u1] hd list_all_obj_sim [OF u2]
              create_sim [OF u2] del: upt_Suc)
      have S2: "children_of ?U1 ?st2 = ?S"
        using ne [of ?i] by (simp add: children_of_add_other)
      have C2: "children_of ?U2 ?st2 \<noteq> []" by (rule children_of_add_same_nonempty)
      show ?thesis
        apply (rule exI [of _ "?p1 @ ?p2 @ [Post ?U2 ?cc]"])
        apply (rule exI [of _ ?st2])
        using False C2
        apply (simp only: r S2)
        apply simp
        done
    next
      case Cne: False
      have r: "ensure_default_children sim_server cdom Section JobCostCenter job
                 \<lparr>sent = l, world = st\<rparr>
               = Some (Inr (), \<lparr>sent = l @ (?p1 @ ?p2), world = st\<rparr>)"
        unfolding ensure_default_children_def
        using \<open>?S \<noteq> []\<close> Cne
        by (simp add: list_all_obj_sim [OF u1] hd list_all_obj_sim [OF u2] del: upt_Suc)
      show ?thesis
        apply (rule exI [of _ "?p1 @ ?p2"])
        apply (rule exI [of _ st])
        using \<open>?S \<noteq> []\<close> Cne
        apply (simp only: r)
        apply simp
        done
    qed
  qed
qed

text \<open>
  C8. The job has an address and the two classes have string segments. Against the
  simulated server the second half of \<^verbatim>\<open>create_job\<close> runs to its end, and run again on
  the state it left it runs to its end again, sends only GET requests and leaves the
  server's records as they were: nothing is created a second time. After the first run
  the job has a section. If it had none before, it has exactly one after the first run,
  hence also after the second; and if no cost center was stored under that new section,
  the section has exactly one.
\<close>

theorem ensure_default_children_idempotent:
  assumes ju: "obj_url cdom job = Inr ju"
    and s1: "cls_type_url_suffix Section = Inr s1"
    and s2: "cls_type_url_suffix JobCostCenter = Inr s2"
  shows "\<exists>ext1 st1 ext2.
      ensure_default_children sim_server cdom Section JobCostCenter job \<lparr>sent = l, world = st\<rparr>
        = Some (Inr (), \<lparr>sent = l @ ext1, world = st1\<rparr>) \<and>
      ensure_default_children sim_server cdom Section JobCostCenter job
          \<lparr>sent = l @ ext1, world = st1\<rparr>
        = Some (Inr (), \<lparr>sent = l @ ext1 @ ext2, world = st1\<rparr>) \<and>
      list_all is_get ext2 \<and>
      children_of (ju @ s1) st1 \<noteq> [] \<and>
      (children_of (ju @ s1) st = [] \<longrightarrow>
         length (children_of (ju @ s1) st1) = 1 \<and>
         (children_of (ju @ s1 @ str_int (next_id st) @ s2) st = [] \<longrightarrow>
            length (children_of (ju @ s1 @ str_int (next_id st) @ s2) st1) = 1))"
proof -
  from ensure_sim_establishes [OF ju s1 s2, of l st] obtain ext1 st1 where
    r1: "ensure_default_children sim_server cdom Section JobCostCenter job \<lparr>sent = l, world = st\<rparr>
           = Some (Inr (), \<lparr>sent = l @ ext1, world = st1\<rparr>)"
    and S: "children_of (ju @ s1) st1 \<noteq> []"
    and C: "children_of (ju @ s1 @ str_int (rid (hd (children_of (ju @ s1) st1))) @ s2) st1 \<noteq> []"
    and one: "children_of (ju @ s1) st = [] \<longrightarrow>
              length (children_of (ju @ s1) st1) = 1 \<and>
              rid (hd (children_of (ju @ s1) st1)) = next_id st \<and>
              (children_of (ju @ s1 @ str_int (next_id st) @ s2) st = [] \<longrightarrow>
                 length (children_of (ju @ s1 @ str_int (next_id st) @ s2) st1) = 1)"
    by blast
  from ensure_sim_noop [OF ju s1 s2 S C, of "l @ ext1"] obtain ext2 where
    r2: "ensure_default_children sim_server cdom Section JobCostCenter job
           \<lparr>sent = l @ ext1, world = st1\<rparr>
         = Some (Inr (), \<lparr>sent = (l @ ext1) @ ext2, world = st1\<rparr>)"
    and g: "list_all is_get ext2"
    by blast
  from r1 r2 g S one show ?thesis by (intro exI [of _ ext1] exI [of _ st1] exI [of _ ext2]) simp
qed

theorem ensure_default_children_idempotent_witness:
  "map_option (\<lambda>x. (fst x, world (snd x)))
     (ensure_default_children sim_server ''acme'' (simple_class ''JobSection'' ''/sections/'' ''s'')
        (simple_class ''JobCostCenter'' ''/costCenters/'' ''c'')
        (SimProObject (simple_class ''Job'' ''/jobs/'' ''j'') 12 Parentless [])
        \<lparr>sent = [], world = \<lparr>entries = [], next_id = 1\<rparr>\<rparr>)
     = Some (Inr (),
         \<lparr>entries =
            [\<lparr>coll = ''https://acme.simprosuite.com/api/v1.0/jobs/12/sections/'', rid = 1,
              stored = []\<rparr>,
             \<lparr>coll = ''https://acme.simprosuite.com/api/v1.0/jobs/12/sections/1/costCenters/'',
              rid = 2, stored = [(''CostCenter'', JInt 0), (''Name'', JStr ''BOQ'')]\<rparr>],
          next_id = 3\<rparr>) \<and>
   map_option (\<lambda>x. (fst x, world (snd x)))
     (Option.bind
        (ensure_default_children sim_server ''acme'' (simple_class ''JobSection'' ''/sections/'' ''s'')
           (simple_class ''JobCostCenter'' ''/costCenters/'' ''c'')
           (SimProObject (simple_class ''Job'' ''/jobs/'' ''j'') 12 Parentless [])
           \<lparr>sent = [], world = \<lparr>entries = [], next_id = 1\<rparr>\<rparr>)
        (\<lambda>x. ensure_default_children sim_server ''acme''
           (simple_class ''JobSection'' ''/sections/'' ''s'')
           (simple_class ''JobCostCenter'' ''/costCenters/'' ''c'')
           (SimProObject (simple_class ''Job'' ''/jobs/'' ''j'') 12 Parentless []) (snd x)))
     = Some (Inr (),
         \<lparr>entries =
            [\<lparr>coll = ''https://acme.simprosuite.com/api/v1.0/jobs/12/sections/'', rid = 1,
              stored = []\<rparr>,
             \<lparr>coll = ''https://acme.simprosuite.com/api/v1.0/jobs/12/sections/1/costCenters/'',
              rid = 2, stored = [(''CostCenter'', JInt 0), (''Name'', JStr ''BOQ'')]\<rparr>],
          next_id = 3\<rparr>)"
proof -
  let ?Sec = "simple_class ''JobSection'' ''/sections/'' ''s''"
  let ?CC = "simple_class ''JobCostCenter'' ''/costCenters/'' ''c''"
  let ?J = "simple_class ''Job'' ''/jobs/'' ''j''"
  let ?job = "SimProObject ?J 12 Parentless []"
  let ?ju = "''https://acme.simprosuite.com/api/v1.0/jobs/12''"
  let ?st0 = "\<lparr>entries = [], next_id = 1\<rparr>"
  let ?stX = "\<lparr>entries =
            [\<lparr>coll = ''https://acme.simprosuite.com/api/v1.0/jobs/12/sections/'', rid = 1,
              stored = []\<rparr>,
             \<lparr>coll = ''https://acme.simprosuite.com/api/v1.0/jobs/12/sections/1/costCenters/'',
              rid = 2, stored = [(''CostCenter'', JInt 0), (''Name'', JStr ''BOQ'')]\<rparr>],
          next_id = 3\<rparr>"
  have n12: "str_int 12 = ''12''" by code_simp
  have n1: "str_int 1 = ''1''" by code_simp
  have ju: "obj_url ''acme'' ?job = Inr ?ju"
    by (simp add: simple_class_suffix BASE_API_URL_def BASE_URL_def n12)
  have s1: "cls_type_url_suffix ?Sec = Inr ''/sections/''" by (rule simple_class_suffix)
  have s2: "cls_type_url_suffix ?CC = Inr ''/costCenters/''" by (rule simple_class_suffix)
  from ensure_default_children_idempotent [OF ju s1 s2, of "[]" ?st0]
  obtain ext1 st1 ext2 where
    r1: "ensure_default_children sim_server ''acme'' ?Sec ?CC ?job \<lparr>sent = [], world = ?st0\<rparr>
          = Some (Inr (), \<lparr>sent = [] @ ext1, world = st1\<rparr>)"
    and r2: "ensure_default_children sim_server ''acme'' ?Sec ?CC ?job
               \<lparr>sent = [] @ ext1, world = st1\<rparr>
          = Some (Inr (), \<lparr>sent = [] @ ext1 @ ext2, world = st1\<rparr>)"
    and one: "children_of (?ju @ ''/sections/'') ?st0 = [] \<longrightarrow>
         length (children_of (?ju @ ''/sections/'') st1) = 1 \<and>
         (children_of (?ju @ ''/sections/'' @ str_int (next_id ?st0) @ ''/costCenters/'') ?st0 = [] \<longrightarrow>
            length (children_of (?ju @ ''/sections/'' @ str_int (next_id ?st0) @ ''/costCenters/'') st1) = 1)"
    by blast
  have u1: "type_url ''acme'' ?Sec ?job = Inr (?ju @ ''/sections/'')"
    using ju s1 by (rule type_url_child)
  have sec: "obj_url ''acme'' (SimProObject ?Sec 1 ?job []) = Inr (?ju @ ''/sections/'' @ ''1'')"
    using ju s1 by (simp add: n1)
  have u2: "type_url ''acme'' ?CC (SimProObject ?Sec 1 ?job [])
              = Inr ((?ju @ ''/sections/'' @ ''1'') @ ''/costCenters/'')"
    using sec s2 by (rule type_url_child)
  have e1: "map_option (\<lambda>x. (fst x, world (snd x)))
              (ensure_default_children sim_server ''acme'' ?Sec ?CC ?job \<lparr>sent = [], world = ?st0\<rparr>)
            = Some (Inr (), ?stX)"
    unfolding ensure_default_children_def
    by (simp add: list_all_obj_sim [OF u1] create_sim [OF u1] list_all_obj_sim [OF u2]
          create_sim [OF u2] children_of_def add_entry_def DEFAULT_COST_CENTER_def del: upt_Suc)
  from e1 r1 have st1: "st1 = ?stX" by simp
  from r1 r2 st1 e1 show ?thesis by simp
qed

section \<open>Properties of \<^verbatim>\<open>create_job\<close>\<close>

lemma send_sent: "send srv rq n = (r, n') \<Longrightarrow> sent n' = sent n @ [rq]"
  by (auto simp: send_def split: prod.splits option.splits)

lemma list_all_loop_extends:
  assumes "list_all_loop srv cls parent u cp pg acc n = Some y"
  shows "\<exists>ext. sent (snd y) = sent n @ ext"
  using assms
proof (induct rule: list_all_loop.raw_induct)
  case (1 loop srv cls parent u cp pg acc n y)
  obtain r n' where s: "send srv (Get u \<lparr>columns = cp, pageSize = Some 250, page = Some pg,
                 orderby = Some ''ID''\<rparr>) n = (r, n')"
    by (cases "send srv (Get u \<lparr>columns = cp, pageSize = Some 250, page = Some pg,
                 orderby = Some ''ID''\<rparr>) n")
  from send_sent [OF s] have e: "sent n' = sent n @ [Get u \<lparr>columns = cp, pageSize = Some 250,
       page = Some pg, orderby = Some ''ID''\<rparr>]" .
  show ?case
  proof (cases "\<exists>objs resp. r = Inr resp \<and> raise_for_status resp \<noteq> Inl (HTTPError (status_code resp))
        \<and> decode_page cls parent resp = Inr objs \<and> links_next resp")
    case True
    then obtain objs resp where h: "r = Inr resp" "decode_page cls parent resp = Inr objs"
      "links_next resp" and ok: "raise_for_status resp \<noteq> Inl (HTTPError (status_code resp))"
      by blast
    from ok have ok': "raise_for_status resp = Inr resp"
      by (simp add: raise_for_status_def split: if_splits)
    from 1(2) s h ok' have a: "loop srv cls parent u cp (pg + 1) (acc @ objs) n' = Some y" by simp
    from 1(3) s h ok' have b: "list_all_loop srv cls parent u cp (pg + 1) (acc @ objs) n' = Some y"
      by (subst (asm) list_all_loop.simps) simp
    from 1(1) [OF a b] obtain ext where "sent (snd y) = sent n' @ ext" by blast
    with e show ?thesis by simp
  next
    case False
    with 1(2) s have "snd y = n'"
      by (auto simp: raise_for_status_def split: sum.splits if_splits)
    with e show ?thesis by simp
  qed
qed (rule assms)

lemma list_all_obj_extends:
  "list_all_obj srv cdom cls parent cols n = Some (r, n') \<Longrightarrow> \<exists>ext. sent n' = sent n @ ext"
  by (auto simp: list_all_obj_def priv_list_all_def priv_columns_to_params_def
           split: sum.splits dest: list_all_loop_extends)

lemma create_extends:
  "create srv cdom cls parent a n = (r, n') \<Longrightarrow> \<exists>ext. sent n' = sent n @ ext"
  by (auto simp: create_def priv_create_def split: sum.splits prod.splits dest: send_sent)

lemma ensure_extends:
  assumes "ensure_default_children srv cdom Section JobCostCenter job n = Some (r, n')"
  shows "\<exists>ext. sent n' = sent n @ ext"
proof -
  from assms obtain sections c1 n1 where
    l1: "list_all_obj srv cdom Section job None n = Some ((sections, c1), n1)"
    by (auto simp: ensure_default_children_def split: option.splits)
  from list_all_obj_extends [OF l1] obtain e1 where e1: "sent n1 = sent n @ e1" by blast
  show ?thesis
  proof (cases sections)
    case (Inl e)
    with assms l1 have "n' = n1" by (simp add: ensure_default_children_def)
    with e1 show ?thesis by blast
  next
    case (Inr secs)
    obtain rs n2 where
      c: "(if length secs < 1 then create srv cdom Section job None n1 else (Inr (hd secs), n1))
            = (rs, n2)"
      by (cases "if length secs < 1 then create srv cdom Section job None n1 else (Inr (hd secs), n1)")
    then have "\<exists>e. sent n2 = sent n1 @ e"
      by (auto split: if_splits dest: create_extends)
    then obtain e2 where e2: "sent n2 = sent n @ e2" using e1 by auto
    show ?thesis
    proof (cases rs)
      case (Inl e)
      with assms l1 Inr c have "n' = n2" by (simp add: ensure_default_children_def)
      with e2 show ?thesis by blast
    next
      case sec: (Inr sec0)
      from assms l1 Inr c sec obtain ccs c3 n3 where
        l3: "list_all_obj srv cdom JobCostCenter sec0 None n2 = Some ((ccs, c3), n3)"
        by (auto simp: ensure_default_children_def split: option.splits)
      from list_all_obj_extends [OF l3] e2 obtain e3 where e3: "sent n3 = sent n @ e3" by auto
      show ?thesis
      proof (cases ccs)
        case (Inl e)
        with assms l1 \<open>sections = Inr secs\<close> c sec l3 have "n' = n3"
          by (simp add: ensure_default_children_def)
        with e3 show ?thesis by blast
      next
        case (Inr centers)
        show ?thesis
        proof (cases "length centers < 1")
          case True
          obtain rc n4 where c4: "create srv cdom JobCostCenter sec0
                                 (Some [(''CostCenter'', JInt DEFAULT_COST_CENTER),
                                        (''Name'', JStr ''BOQ'')]) n3 = (rc, n4)"
            by (cases "create srv cdom JobCostCenter sec0
                                 (Some [(''CostCenter'', JInt DEFAULT_COST_CENTER),
                                        (''Name'', JStr ''BOQ'')]) n3")
          from create_extends [OF c4] e3 obtain e4 where e4: "sent n4 = sent n @ e4" by auto
          from assms l1 \<open>sections = Inr secs\<close> c sec l3 Inr True c4 have "n' = n4"
            by (auto simp: ensure_default_children_def split: sum.splits)
          with e4 show ?thesis by blast
        next
          case False
          with assms l1 \<open>sections = Inr secs\<close> c sec l3 Inr have "n' = n3"
            by (simp add: ensure_default_children_def)
          with e3 show ?thesis by blast
        qed
      qed
    qed
  qed
qed

lemma keys_dict_update: "keys (dict_update d other) = keys d \<union> keys other"
proof -
  have "\<And>d. fst ` set (fold (\<lambda>(k, v). AList.update k v) other d) = fst ` set d \<union> fst ` set other"
  proof (induction other)
    case Nil
    show ?case by simp
  next
    case (Cons x other)
    obtain k v where x: "x = (k, v)" by (cases x)
    show ?case by (simp add: x Cons.IH dom_update)
  qed
  then show ?thesis by (simp add: keys_def dict_update_def)
qed

lemma create_result:
  "create srv cdom cls parent a n = (Inr obj, n') \<Longrightarrow> \<exists>i at. obj = SimProObject cls i parent at"
  by (auto simp: create_def priv_create_def split: sum.splits prod.splits)

lemma create_site_loop_result:
  "create_site_loop srv cdom Site customer ra k n = (Inr site, n') \<Longrightarrow>
   \<exists>i at. site = SimProObject Site i customer at"
proof (induction k arbitrary: n)
  case 0
  then show ?case by simp
next
  case (Suc k)
  obtain r n1 where c: "create srv cdom Site customer (Some ra) n = (r, n1)"
    by (cases "create srv cdom Site customer (Some ra) n")
  show ?case
  proof (cases r)
    case (Inr obj)
    with Suc.prems c have "site = obj" by simp
    with create_result c Inr show ?thesis by blast
  next
    case (Inl e)
    show ?thesis
    proof (cases e)
      case (HTTPError st)
      with Suc.prems c Inl have "create_site_loop srv cdom Site customer ra k n1 = (Inr site, n')"
        by simp
      then show ?thesis by (rule Suc.IH)
    qed (use Suc.prems c Inl in simp_all)
  qed
qed

lemma create_site_result:
  "create_site srv cdom Site customer sa n = (Inr site, n') \<Longrightarrow>
   \<exists>i at. site = SimProObject Site i customer at"
  by (auto simp: create_site_def split: sum.splits dest: create_site_loop_result)

lemma create_job_site_made:
  assumes nosite: "''Site'' \<notin> keys job_attributes"
    and cid: "get_record_id customer = Inr cid"
    and ju: "type_url cdom Job company = Inr ju"
    and cs: "create_site srv cdom Site customer job_attributes n = (Inr site, n1)"
  shows "\<exists>sid rj n2.
           get_record_id site = Inr sid \<and>
           create srv cdom Job company (Some (job_record_attributes cid job_attributes)) n1 = (rj, n2) \<and>
           sent n2 = sent n1 @ [Post ju (job_record_attributes cid job_attributes)] \<and>
           ''Site'' \<notin> keys (job_record_attributes cid job_attributes) \<and>
           create_job_start srv cdom Site Job company customer job_attributes n
             = (rj, AList.update ''Site'' (JInt sid) job_attributes, n2) \<and>
           map_of (AList.update ''Site'' (JInt sid) job_attributes) ''Site'' = Some (JInt sid) \<and>
           create_job srv cdom Site Job Section JobCostCenter company customer job_attributes n
             = (case rj of
                  Inl e \<Rightarrow> Some ((Inl e, AList.update ''Site'' (JInt sid) job_attributes), n2)
                | Inr job \<Rightarrow>
                    map_option
                      (\<lambda>x. ((case fst x of Inl e \<Rightarrow> Inl e | Inr u \<Rightarrow> Inr job,
                             AList.update ''Site'' (JInt sid) job_attributes), snd x))
                      (ensure_default_children srv cdom Section JobCostCenter job n2)) \<and>
           (\<forall>r ja' nf.
              create_job srv cdom Site Job Section JobCostCenter company customer job_attributes n
                = Some ((r, ja'), nf) \<longrightarrow>
              ja' = AList.update ''Site'' (JInt sid) job_attributes \<and>
              (\<exists>ext. sent nf = sent n1 @ Post ju (job_record_attributes cid job_attributes) # ext))"
proof -
  let ?ra = "job_record_attributes cid job_attributes"
  from create_site_result [OF cs] obtain sid at where site: "site = SimProObject Site sid customer at"
    by blast
  then have sid: "get_record_id site = Inr sid" by simp
  let ?ja = "AList.update ''Site'' (JInt sid) job_attributes"
  obtain rj n2 where cj: "create srv cdom Job company (Some ?ra) n1 = (rj, n2)"
    by (cases "create srv cdom Job company (Some ?ra) n1")
  from create_sent [OF ju, of srv ?ra n1] cj have s2: "sent n2 = sent n1 @ [Post ju ?ra]" by simp
  have nos: "''Site'' \<notin> keys ?ra"
    using nosite by (simp add: job_record_attributes_def keys_dict_update) (simp add: keys_def)
  have st: "create_job_start srv cdom Site Job company customer job_attributes n = (rj, ?ja, n2)"
    using nos cid cs sid cj by (simp add: create_job_start_def split: sum.splits)
  have cjob: "create_job srv cdom Site Job Section JobCostCenter company customer job_attributes n
             = (case rj of
                  Inl e \<Rightarrow> Some ((Inl e, ?ja), n2)
                | Inr job \<Rightarrow>
                    map_option
                      (\<lambda>x. ((case fst x of Inl e \<Rightarrow> Inl e | Inr u \<Rightarrow> Inr job, ?ja), snd x))
                      (ensure_default_children srv cdom Section JobCostCenter job n2))"
    by (simp add: create_job_def st split: sum.splits option.splits prod.splits)
  have fin: "\<forall>r ja' nf.
              create_job srv cdom Site Job Section JobCostCenter company customer job_attributes n
                = Some ((r, ja'), nf) \<longrightarrow>
              ja' = ?ja \<and> (\<exists>ext. sent nf = sent n1 @ Post ju ?ra # ext)"
  proof (intro allI impI)
    fix r ja' nf
    assume r: "create_job srv cdom Site Job Section JobCostCenter company customer job_attributes n
                = Some ((r, ja'), nf)"
    have "ja' = ?ja \<and> (\<exists>ext. sent nf = sent n2 @ ext)"
    proof (cases rj)
      case (Inl e)
      with r cjob show ?thesis by simp
    next
      case (Inr job)
      with r cjob obtain re n3 where
        en: "ensure_default_children srv cdom Section JobCostCenter job n2 = Some (re, n3)"
        and "ja' = ?ja" "nf = n3"
        by auto
      with ensure_extends [OF en] show ?thesis by simp
    qed
    with s2 show "ja' = ?ja \<and> (\<exists>ext. sent nf = sent n1 @ Post ju ?ra # ext)" by auto
  qed
  from sid cj s2 nos st cjob fin show ?thesis
    by (intro exI [of _ sid] exI [of _ rj] exI [of _ n2]) (simp add: update_conv')
qed

lemma create_job_site_fails:
  assumes nosite: "''Site'' \<notin> keys job_attributes"
    and cid: "get_record_id customer = Inr cid"
    and cs: "create_site srv cdom Site customer job_attributes n = (Inl e, n1)"
  shows "create_job srv cdom Site Job Section JobCostCenter company customer job_attributes n
           = Some ((Inl e, job_attributes), n1)"
proof -
  have "''Site'' \<notin> keys (job_record_attributes cid job_attributes)"
    using nosite by (simp add: job_record_attributes_def keys_dict_update) (simp add: keys_def)
  with cid cs show ?thesis by (simp add: create_job_def create_job_start_def)
qed

text \<open>
  Against the server that always announces a further page, no listing ends, while every
  record is still created.
\<close>

lemma endless_never_returns:
  assumes "list_all_loop srv cls parent u cp pg acc n = Some y"
  shows "srv \<noteq> endless_server"
  using assms
proof (induct srv cls parent u cp pg acc n y rule: list_all_loop.raw_induct)
  case (1 loop srv cls parent u cp pg acc n y)
  show ?case
  proof
    assume e: "srv = endless_server"
    let ?n' = "\<lparr>sent = sent n @ [Get u \<lparr>columns = cp, pageSize = Some 250, page = Some pg,
                 orderby = Some ''ID''\<rparr>], world = world n\<rparr>"
    have s: "send srv (Get u \<lparr>columns = cp, pageSize = Some 250, page = Some pg,
                 orderby = Some ''ID''\<rparr>) n
               = (Inr \<lparr>status_code = 200, json_body = Some (JList []), links_next = True\<rparr>, ?n')"
      by (simp add: e send_def)
    from 1(2) s have a: "loop srv cls parent u cp (pg + 1) (acc @ []) ?n' = Some y"
      by (simp add: raise_for_status_def decode_page_def response_json_def)
    have eq: "list_all_loop srv cls parent u cp pg acc n
            = list_all_loop srv cls parent u cp (pg + 1) (acc @ []) ?n'"
      by (subst list_all_loop.simps)
         (simp add: s raise_for_status_def decode_page_def response_json_def)
    have b: "list_all_loop srv cls parent u cp (pg + 1) (acc @ []) ?n' = Some y"
      by (rule trans [OF eq [symmetric] 1(3)])
    from 1(1) [OF a b] e show False by simp
  qed
qed (rule assms)

lemma list_all_obj_endless:
  "type_url cdom cls parent = Inr u \<Longrightarrow> list_all_obj endless_server cdom cls parent cols n = None"
proof -
  assume u: "type_url cdom cls parent = Inr u"
  have "list_all_loop endless_server cls parent u
          (fst (priv_columns_to_params (Some (case cols of None \<Rightarrow> [] | Some c \<Rightarrow> c)))) 1 [] n = None"
  proof (cases "list_all_loop endless_server cls parent u
          (fst (priv_columns_to_params (Some (case cols of None \<Rightarrow> [] | Some c \<Rightarrow> c)))) 1 [] n")
    case None
    then show ?thesis .
  next
    case (Some y)
    from endless_never_returns [OF this] show ?thesis by simp
  qed
  with u show ?thesis
    by (simp add: list_all_obj_def priv_list_all_def priv_columns_to_params_def)
qed

lemma create_endless:
  assumes "type_url cdom cls parent = Inr u"
  shows "create endless_server cdom cls parent a \<lparr>sent = l, world = k\<rparr> =
     (Inr (SimProObject cls (int k) parent
             (AList.delete ''ID'' (case a of None \<Rightarrow> [] | Some d \<Rightarrow> d))),
      \<lparr>sent = l @ [Post u (case a of None \<Rightarrow> [] | Some d \<Rightarrow> d)], world = Suc k\<rparr>)"
  using assms
  by (simp add: create_def priv_create_def send_def raise_for_status_def response_json_def
        update_conv' delete_update_same)

lemma ensure_endless:
  "type_url cdom Section job = Inr u \<Longrightarrow>
   ensure_default_children endless_server cdom Section JobCostCenter job n = None"
  by (simp add: ensure_default_children_def list_all_obj_endless)

lemma create_sim_eval:
  "create sim_server cdom cls parent a \<lparr>sent = l, world = st\<rparr> =
     (case type_url cdom cls parent of
        Inl e \<Rightarrow> (Inl e, \<lparr>sent = l, world = st\<rparr>)
      | Inr u \<Rightarrow>
          (Inr (SimProObject cls (next_id st) parent
                  (AList.delete ''ID'' (case a of None \<Rightarrow> [] | Some d \<Rightarrow> d))),
           \<lparr>sent = l @ [Post u (case a of None \<Rightarrow> [] | Some d \<Rightarrow> d)],
            world = add_entry u (case a of None \<Rightarrow> [] | Some d \<Rightarrow> d) st\<rparr>))"
proof (cases "type_url cdom cls parent")
  case (Inl e)
  then show ?thesis by (simp add: create_def priv_create_def)
next
  case (Inr u)
  then show ?thesis by (simp add: create_sim)
qed

text \<open>
  C9. The caller's \<^verbatim>\<open>job_attributes\<close> have no \<^verbatim>\<open>"Site"\<close>, so neither have the record
  attributes merged from them, and \<^verbatim>\<open>create_job\<close> calls \<^verbatim>\<open>create_site\<close>; the customer has a
  record id and the company an address for jobs. If \<^verbatim>\<open>create_site\<close> raises, \<^verbatim>\<open>create_job\<close>
  raises the same, the dict is as it was and no request for a job is sent. If \<^verbatim>\<open>create_site\<close>
  returns a site, the lines up to \<^verbatim>\<open>Job.create\<close> put the id of the site into the caller's dict
  under \<^verbatim>\<open>"Site"\<close> and send, right after the requests of \<^verbatim>\<open>create_site\<close>, the POST of
  \<^verbatim>\<open>Job.create\<close>, whose body is the record attributes as they were merged before, without
  \<^verbatim>\<open>"Site"\<close>. This is so whether or not the listings that follow ever end: \<^verbatim>\<open>create_job\<close>
  is these lines followed by the default section and cost center of the job, and whenever
  it ends, the dict and the requests sent begin as said.
\<close>

theorem create_job_leaves_site_out:
  assumes nosite: "''Site'' \<notin> keys job_attributes"
    and cid: "get_record_id customer = Inr cid"
    and ju: "type_url cdom Job company = Inr ju"
  shows
  "(create_site srv cdom Site customer job_attributes n = (Inl e, n0) \<longrightarrow>
      create_job srv cdom Site Job Section JobCostCenter company customer job_attributes n
        = Some ((Inl e, job_attributes), n0)) \<and>
   (create_site srv cdom Site customer job_attributes n = (Inr site, n1) \<longrightarrow>
      (\<exists>sid rj n2.
           get_record_id site = Inr sid \<and>
           create srv cdom Job company (Some (job_record_attributes cid job_attributes)) n1 = (rj, n2) \<and>
           sent n2 = sent n1 @ [Post ju (job_record_attributes cid job_attributes)] \<and>
           ''Site'' \<notin> keys (job_record_attributes cid job_attributes) \<and>
           create_job_start srv cdom Site Job company customer job_attributes n
             = (rj, AList.update ''Site'' (JInt sid) job_attributes, n2) \<and>
           map_of (AList.update ''Site'' (JInt sid) job_attributes) ''Site'' = Some (JInt sid) \<and>
           create_job srv cdom Site Job Section JobCostCenter company customer job_attributes n
             = (case rj of
                  Inl e \<Rightarrow> Some ((Inl e, AList.update ''Site'' (JInt sid) job_attributes), n2)
                | Inr job \<Rightarrow>
                    map_option
                      (\<lambda>x. ((case fst x of Inl e \<Rightarrow> Inl e | Inr u \<Rightarrow> Inr job,
                             AList.update ''Site'' (JInt sid) job_attributes), snd x))
                      (ensure_default_children srv cdom Section JobCostCenter job n2)) \<and>
           (\<forall>r ja' nf.
              create_job srv cdom Site Job Section JobCostCenter company customer job_attributes n
                = Some ((r, ja'), nf) \<longrightarrow>
              ja' = AList.update ''Site'' (JInt sid) job_attributes \<and>
              (\<exists>ext. sent nf = sent n1 @ Post ju (job_record_attributes cid job_attributes) # ext))))"
proof (intro conjI impI)
  assume "create_site srv cdom Site customer job_attributes n = (Inl e, n0)"
  then show "create_job srv cdom Site Job Section JobCostCenter company customer job_attributes n
        = Some ((Inl e, job_attributes), n0)"
    by (rule create_job_site_fails [OF nosite cid])
next
  assume "create_site srv cdom Site customer job_attributes n = (Inr site, n1)"
  then show "\<exists>sid rj n2.
           get_record_id site = Inr sid \<and>
           create srv cdom Job company (Some (job_record_attributes cid job_attributes)) n1 = (rj, n2) \<and>
           sent n2 = sent n1 @ [Post ju (job_record_attributes cid job_attributes)] \<and>
           ''Site'' \<notin> keys (job_record_attributes cid job_attributes) \<and>
           create_job_start srv cdom Site Job company customer job_attributes n
             = (rj, AList.update ''Site'' (JInt sid) job_attributes, n2) \<and>
           map_of (AList.update ''Site'' (JInt sid) job_attributes) ''Site'' = Some (JInt sid) \<and>
           create_job srv cdom Site Job Section JobCostCenter company customer job_attributes n
             = (case rj of
                  Inl e \<Rightarrow> Some ((Inl e, AList.update ''Site'' (JInt sid) job_attributes), n2)
                | Inr job \<Rightarrow>
                    map_option
                      (\<lambda>x. ((case fst x of Inl e \<Rightarrow> Inl e | Inr u \<Rightarrow> Inr job,
                             AList.update ''Site'' (JInt sid) job_attributes), snd x))
                      (ensure_default_children srv cdom Section JobCostCenter job n2)) \<and>
           (\<forall>r ja' nf.
              create_job srv cdom Site Job Section JobCostCenter company customer job_attributes n
                = Some ((r, ja'), nf) \<longrightarrow>
              ja' = AList.update ''Site'' (JInt sid) job_attributes \<and>
              (\<exists>ext. sent nf = sent n1 @ Post ju (job_record_attributes cid job_attributes) # ext))"
    by (rule create_job_site_made [OF nosite cid ju])
qed

theorem create_job_leaves_site_out_witness:
  "map_option (\<lambda>x. (snd (fst x), sent (snd x) ! 1))
     (create_job sim_server ''acme'' (simple_class ''Site'' ''/sites/'' ''s'')
        (simple_class ''Job'' ''/jobs/'' ''j'') (simple_class ''JobSection'' ''/sections/'' ''s'')
        (simple_class ''JobCostCenter'' ''/costCenters/'' ''c'')
        (SimProObject (simple_class ''Company'' ''/companies/'' ''c'') 0 Parentless [])
        (SimProObject (simple_class ''CompanyCustomer'' ''/customers/companies/'' ''c'') 7
           (SimProObject (simple_class ''Company'' ''/companies/'' ''c'') 0 Parentless []) [])
        [(''Name'', JStr ''Depot'')]
        \<lparr>sent = [], world = \<lparr>entries = [], next_id = 1\<rparr>\<rparr>)
   = Some ([(''Name'', JStr ''Depot''), (''Site'', JInt 1)],
           Post ''https://acme.simprosuite.com/api/v1.0/companies/0/jobs/''
             [(''Type'', JStr ''Service''), (''Customer'', JInt 7), (''Name'', JStr ''Depot'')]) \<and>
   create_job scripted_server ''acme'' (simple_class ''Site'' ''/sites/'' ''s'')
        (simple_class ''Job'' ''/jobs/'' ''j'') (simple_class ''JobSection'' ''/sections/'' ''s'')
        (simple_class ''JobCostCenter'' ''/costCenters/'' ''c'')
        (SimProObject (simple_class ''Company'' ''/companies/'' ''c'') 0 Parentless [])
        (SimProObject (simple_class ''CompanyCustomer'' ''/customers/companies/'' ''c'') 7
           (SimProObject (simple_class ''Company'' ''/companies/'' ''c'') 0 Parentless []) [])
        [(''Name'', JStr ''Depot'')]
        \<lparr>sent = [], world = [Some (http_response 503 None), Some (http_response 503 None),
                             Some (http_response 503 None)]\<rparr>
   = Some ((Inl JobRecordCreationError, [(''Name'', JStr ''Depot'')]),
           \<lparr>sent = replicate 3
                     (Post ''https://acme.simprosuite.com/api/v1.0/companies/0/customers/companies/7/sites/''
                        [(''Name'', JStr ''Depot'')]),
            world = []\<rparr>) \<and>
   create_job_start endless_server ''acme'' (simple_class ''Site'' ''/sites/'' ''s'')
        (simple_class ''Job'' ''/jobs/'' ''j'')
        (SimProObject (simple_class ''Company'' ''/companies/'' ''c'') 0 Parentless [])
        (SimProObject (simple_class ''CompanyCustomer'' ''/customers/companies/'' ''c'') 7
           (SimProObject (simple_class ''Company'' ''/companies/'' ''c'') 0 Parentless []) [])
        [(''Name'', JStr ''Depot'')] \<lparr>sent = [], world = 0\<rparr>
   = (Inr (SimProObject (simple_class ''Job'' ''/jobs/'' ''j'') 1
             (SimProObject (simple_class ''Company'' ''/companies/'' ''c'') 0 Parentless [])
             [(''Type'', JStr ''Service''), (''Customer'', JInt 7), (''Name'', JStr ''Depot'')]),
      [(''Name'', JStr ''Depot''), (''Site'', JInt 0)],
      \<lparr>sent = [Post ''https://acme.simprosuite.com/api/v1.0/companies/0/customers/companies/7/sites/''
                  [(''Name'', JStr ''Depot'')],
                Post ''https://acme.simprosuite.com/api/v1.0/companies/0/jobs/''
                  [(''Type'', JStr ''Service''), (''Customer'', JInt 7), (''Name'', JStr ''Depot'')]],
       world = 2\<rparr>) \<and>
   create_job endless_server ''acme'' (simple_class ''Site'' ''/sites/'' ''s'')
        (simple_class ''Job'' ''/jobs/'' ''j'') (simple_class ''JobSection'' ''/sections/'' ''s'')
        (simple_class ''JobCostCenter'' ''/costCenters/'' ''c'')
        (SimProObject (simple_class ''Company'' ''/companies/'' ''c'') 0 Parentless [])
        (SimProObject (simple_class ''CompanyCustomer'' ''/customers/companies/'' ''c'') 7
           (SimProObject (simple_class ''Company'' ''/companies/'' ''c'') 0 Parentless []) [])
        [(''Name'', JStr ''Depot'')] \<lparr>sent = [], world = 0\<rparr>
   = None"
proof -
  let ?Site = "simple_class ''Site'' ''/sites/'' ''s''"
  let ?Job = "simple_class ''Job'' ''/jobs/'' ''j''"
  let ?Sec = "simple_class ''JobSection'' ''/sections/'' ''s''"
  let ?CC = "simple_class ''JobCostCenter'' ''/costCenters/'' ''c''"
  let ?co = "SimProObject (simple_class ''Company'' ''/companies/'' ''c'') 0 Parentless []"
  let ?cu = "SimProObject (simple_class ''CompanyCustomer'' ''/customers/companies/'' ''c'') 7 ?co []"
  let ?ja = "[(''Name'', JStr ''Depot'')]"
  let ?n = "\<lparr>sent = [], world = \<lparr>entries = [], next_id = 1\<rparr>\<rparr>"
  let ?ju = "''https://acme.simprosuite.com/api/v1.0/companies/0/jobs/''"
  let ?su = "''https://acme.simprosuite.com/api/v1.0/companies/0/customers/companies/7/sites/''"
  let ?n1 = "\<lparr>sent = [Post ?su ?ja], world = add_entry ?su ?ja \<lparr>entries = [], next_id = 1\<rparr>\<rparr>"
  let ?site = "SimProObject ?Site 1 ?cu ?ja"
  let ?ra = "[(''Type'', JStr ''Service''), (''Customer'', JInt 7), (''Name'', JStr ''Depot'')]"
  let ?job = "SimProObject ?Job 2 ?co ?ra"
  let ?n2 = "\<lparr>sent = [Post ?su ?ja, Post ?ju ?ra],
             world = add_entry ?ju ?ra (add_entry ?su ?ja \<lparr>entries = [], next_id = 1\<rparr>)\<rparr>"
  have n0: "str_int 0 = ''0''" by code_simp
  have n7: "str_int 7 = ''7''" by code_simp
  have n2: "str_int 2 = ''2''" by code_simp
  have b: "BASE_API_URL ''acme'' = ''https://acme.simprosuite.com/api/v1.0''"
    by (simp add: BASE_API_URL_def BASE_URL_def)
  have ra: "job_record_attributes 7 ?ja = ?ra"
    by (simp add: job_record_attributes_def dict_update_def)
  have nosite: "''Site'' \<notin> keys ?ja" by (simp add: keys_def)
  have cid: "get_record_id ?cu = Inr 7" by simp
  have ju: "type_url ''acme'' ?Job ?co = Inr ?ju"
    by (simp add: type_url_def simple_class_suffix b n0)
  have su: "type_url ''acme'' ?Site ?cu = Inr ?su"
    by (simp add: type_url_def simple_class_suffix b n0 n7)
  note th = create_job_leaves_site_out [OF nosite cid ju]
  have cs: "create_site sim_server ''acme'' ?Site ?cu ?ja ?n = (Inr ?site, ?n1)"
    by (simp add: create_site_def site_record_attributes_def set_name_def dict_update_def
          numeral_3_eq_3 create_sim_eval su)
  have cj: "create sim_server ''acme'' ?Job ?co (Some ?ra) ?n1 = (Inr ?job, ?n2)"
    by (simp add: create_sim_eval ju add_entry_def)
  have jobu: "obj_url ''acme'' ?job = Inr (?ju @ ''2'')"
    using ju by (simp add: type_url_def simple_class_suffix b n0 n2)
  from ensure_sim_establishes [OF jobu, of ?Sec "''/sections/''" ?CC "''/costCenters/''"
        "[Post ?su ?ja, Post ?ju ?ra]"
        "add_entry ?ju ?ra (add_entry ?su ?ja \<lparr>entries = [], next_id = 1\<rparr>)"]
  obtain ext st' where en: "ensure_default_children sim_server ''acme'' ?Sec ?CC ?job ?n2
             = Some (Inr (), \<lparr>sent = [Post ?su ?ja, Post ?ju ?ra] @ ext, world = st'\<rparr>)"
    by (auto simp: simple_class_suffix)
  from th [where srv = sim_server and Site = ?Site and n = ?n and site = ?site and ?n1.0 = ?n1
      and Section = ?Sec and JobCostCenter = ?CC, THEN conjunct2] cs
  obtain sid rj n2 where
    a1: "get_record_id ?site = Inr sid"
    and a2: "create sim_server ''acme'' ?Job ?co (Some (job_record_attributes 7 ?ja)) ?n1 = (rj, n2)"
    and a3: "create_job sim_server ''acme'' ?Site ?Job ?Sec ?CC ?co ?cu ?ja ?n
             = (case rj of
                  Inl e \<Rightarrow> Some ((Inl e, AList.update ''Site'' (JInt sid) ?ja), n2)
                | Inr job \<Rightarrow>
                    map_option
                      (\<lambda>x. ((case fst x of Inl e \<Rightarrow> Inl e | Inr u \<Rightarrow> Inr job,
                             AList.update ''Site'' (JInt sid) ?ja), snd x))
                      (ensure_default_children sim_server ''acme'' ?Sec ?CC job n2))"
    by blast
  from a1 have sid: "sid = 1" by simp
  from a2 cj have rj: "rj = Inr ?job" "n2 = ?n2" by (simp_all add: ra)
  from a3 sid rj en
  have A: "map_option (\<lambda>x. (snd (fst x), sent (snd x) ! 1))
             (create_job sim_server ''acme'' ?Site ?Job ?Sec ?CC ?co ?cu ?ja ?n)
           = Some ([(''Name'', JStr ''Depot''), (''Site'', JInt 1)], Post ?ju ?ra)"
    by simp
  let ?e = "Some (http_response 503 None)"
  let ?m = "\<lparr>sent = [], world = [?e, ?e, ?e]\<rparr>"
  let ?m1 = "\<lparr>sent = [Post ?su ?ja, Post ?su ?ja, Post ?su ?ja], world = []\<rparr>"
  have cf: "create_site scripted_server ''acme'' ?Site ?cu ?ja ?m = (Inl JobRecordCreationError, ?m1)"
    by (simp add: create_site_def site_record_attributes_def set_name_def dict_update_def
          numeral_3_eq_3 create_scripted [OF su])
  from th [where srv = scripted_server and Site = ?Site and n = ?m and e = JobRecordCreationError
      and ?n0.0 = ?m1 and Section = ?Sec and JobCostCenter = ?CC, THEN conjunct1] cf
  have B: "create_job scripted_server ''acme'' ?Site ?Job ?Sec ?CC ?co ?cu ?ja ?m
             = Some ((Inl JobRecordCreationError, ?ja), ?m1)"
    by blast
  have r3: "replicate 3 (Post ?su ?ja) = [Post ?su ?ja, Post ?su ?ja, Post ?su ?ja]"
    by (simp add: numeral_3_eq_3)
  let ?k = "\<lparr>sent = [], world = 0::nat\<rparr>"
  let ?k1 = "\<lparr>sent = [Post ?su ?ja], world = Suc 0\<rparr>"
  let ?k2 = "\<lparr>sent = [Post ?su ?ja, Post ?ju ?ra], world = Suc (Suc 0)\<rparr>"
  let ?site0 = "SimProObject ?Site 0 ?cu ?ja"
  let ?job1 = "SimProObject ?Job 1 ?co ?ra"
  have n1: "str_int 1 = ''1''" by code_simp
  have ce: "create_site endless_server ''acme'' ?Site ?cu ?ja ?k = (Inr ?site0, ?k1)"
    by (simp add: create_site_def site_record_attributes_def set_name_def dict_update_def
          numeral_3_eq_3 create_endless [OF su])
  have cje: "create endless_server ''acme'' ?Job ?co (Some ?ra) ?k1 = (Inr ?job1, ?k2)"
    by (simp add: create_endless [OF ju])
  have secu: "type_url ''acme'' ?Sec ?job1
                = Inr (?ju @ ''1'' @ ''/sections/'')"
    using ju by (simp add: type_url_def simple_class_suffix b n0 n1)
  from th [where srv = endless_server and Site = ?Site and n = ?k and site = ?site0 and ?n1.0 = ?k1
      and Section = ?Sec and JobCostCenter = ?CC, THEN conjunct2] ce
  obtain sid' rj' n2' where
    e1: "get_record_id ?site0 = Inr sid'"
    and e2: "create endless_server ''acme'' ?Job ?co (Some (job_record_attributes 7 ?ja)) ?k1 = (rj', n2')"
    and e3: "create_job_start endless_server ''acme'' ?Site ?Job ?co ?cu ?ja ?k
             = (rj', AList.update ''Site'' (JInt sid') ?ja, n2')"
    and e4: "create_job endless_server ''acme'' ?Site ?Job ?Sec ?CC ?co ?cu ?ja ?k
             = (case rj' of
                  Inl e \<Rightarrow> Some ((Inl e, AList.update ''Site'' (JInt sid') ?ja), n2')
                | Inr job \<Rightarrow>
                    map_option
                      (\<lambda>x. ((case fst x of Inl e \<Rightarrow> Inl e | Inr u \<Rightarrow> Inr job,
                             AList.update ''Site'' (JInt sid') ?ja), snd x))
                      (ensure_default_children endless_server ''acme'' ?Sec ?CC job n2'))"
    by blast
  from e1 have sid': "sid' = 0" by simp
  from e2 cje have rj': "rj' = Inr ?job1" "n2' = ?k2" by (simp_all add: ra)
  have two: "(2::nat) = Suc (Suc 0)" by simp
  from e3 sid' rj'
  have C: "create_job_start endless_server ''acme'' ?Site ?Job ?co ?cu ?ja ?k
             = (Inr ?job1, [(''Name'', JStr ''Depot''), (''Site'', JInt 0)], ?k2)"
    by simp
  from e4 rj' ensure_endless [OF secu]
  have D: "create_job endless_server ''acme'' ?Site ?Job ?Sec ?CC ?co ?cu ?ja ?k = None"
    by simp
  show ?thesis unfolding r3 two using A B C D by simp
qed

end
